theory Spec2Isabelle
  imports Complex_Main
begin

section \<open>Numbers, memory and status codes\<close>

text \<open>
  The source computes with \<^verbatim>\<open>REAL\<close> (double) and \<^verbatim>\<open>COMPLEX\<close> (double complex).
  They are modelled by \<open>real\<close> and \<open>complex\<close>: arithmetic is exact, and the theorems
  below are about control flow and data flow (which slot receives which formula, which
  branch returns which status), not about rounding. Where the C code can divide by a
  floating zero and the quotient decides a branch, the model writes the IEEE outcome out
  (an infinite or NaN quotient compares false). Where such a quotient is only stored, C
  stores an infinity or a NaN, which \<open>real\<close> and \<open>complex\<close> do not have; the model is
  then silent about the stored value. That happens in three places: the grid step for
  \<open>M = 1\<close>, the Richardson denominator \<open>s - 1\<close> when the sub-run has as many samples as
  the full run (\<open>D = 2\<close>), and a residue or derivative that is exactly zero in the
  Richardson step. \<^verbatim>\<open>UINT\<close> is modelled by \<open>nat\<close> and \<^verbatim>\<open>INT\<close> by \<open>int\<close>; sample
  counts stay far below the word size, and the step size \<open>(T\<^sub>1 - T\<^sub>0) / (D_given - 1)\<close> is
  taken with \<open>D_given \<ge> 2\<close>, as every call from \<^verbatim>\<open>fnft_nsev_slow\<close> has it.

  A C array is the memory behind a pointer: a function from indices to values, with no
  length of its own (the function under study is told the length separately). A pointer
  that may be \<^verbatim>\<open>NULL\<close> is an \<open>option\<close>.
\<close>

type_synonym carray = "nat \<Rightarrow> complex"

text \<open>
  The status codes of \<^verbatim>\<open>fnft__errwarn.h\<close> that the source returns. \<open>FAULT\<close> is not a
  status code: it marks an execution with undefined behaviour in C (a dereferenced null
  pointer, a read outside an allocated block), after which nothing is known.
\<close>

datatype ret_code = SUCCESS | E_INVALID_ARGUMENT | E_NOMEM | E_DIV_BY_ZERO | E_OTHER | FAULT

text \<open>
  Modelled from the spec: the macro \<^verbatim>\<open>E_SUBROUTINE\<close> of \<^verbatim>\<open>fnft__errwarn.h\<close> is not
  among the sources. The spec has it wrap a lower component's error code "preserving the
  original kind", so the code is passed through. \<^verbatim>\<open>CHECK_RETCODE(ret_code, label)\<close> is
  "if ret_code is not SUCCESS, wrap it with E_SUBROUTINE and jump to label".
\<close>

definition E_SUBROUTINE :: "ret_code \<Rightarrow> ret_code" where
  "E_SUBROUTINE ec = ec"

text \<open>
  The discretization identities the sources name; \<open>nse_discretization_OTHER\<close> stands for
  every other value of the enumeration (the split schemes of the fast transform, or an
  integer outside the enumeration).
\<close>

datatype nse_discretization =
    nse_discretization_BO
  | nse_discretization_CF4_2
  | nse_discretization_CF4_3
  | nse_discretization_CF5_3
  | nse_discretization_CF6_4
  | nse_discretization_ES4
  | nse_discretization_TES4
  | nse_discretization_OTHER nat

datatype akns_discretization = akns_discretization_BO

text \<open>Entries of a bounding box: \<^verbatim>\<open>INFINITY\<close> and \<^verbatim>\<open>-INFINITY\<close> are values of a double.\<close>

datatype xreal = Fin real | PInf | MInf

text \<open>
  The collaborators of the two source files that are not among the sources: the
  discretization descriptor, the scatter engine, filtering, merging, the norm, band-limited
  resampling, the allocator and the constant \<^verbatim>\<open>EPSILON\<close>. They are parameters of the
  model. Arrays go in as the list of their first \<open>n\<close> entries (the length the callee is
  told) and come out as memory contents. \<open>malloc site\<close> is \<open>None\<close> when the allocation
  at that place fails, else the uninitialised contents of the fresh block.
\<close>

record env =
  nse_discretization_D_scale :: "nse_discretization \<Rightarrow> nat"
  nse_discretization_method_order :: "nse_discretization \<Rightarrow> nat"
  nse_discretization_boundary_coeff :: "nse_discretization \<Rightarrow> real"
  nse_scatter_matrix_slow ::
    "nat \<Rightarrow> complex list \<Rightarrow> complex list \<Rightarrow> real \<Rightarrow> int \<Rightarrow> complex list
       \<Rightarrow> nse_discretization \<Rightarrow> ret_code \<times> carray"
  nse_scatter_bound_states ::
    "nat \<Rightarrow> complex list \<Rightarrow> complex list \<Rightarrow> real \<times> real \<Rightarrow> complex list
       \<Rightarrow> nse_discretization \<Rightarrow> nat \<Rightarrow> ret_code \<times> carray \<times> carray \<times> carray"
  akns_scatter_matrix ::
    "nat \<Rightarrow> complex list \<Rightarrow> complex list \<Rightarrow> real \<Rightarrow> complex list
       \<Rightarrow> akns_discretization \<Rightarrow> ret_code \<times> carray"
  misc_filter :: "complex list \<Rightarrow> xreal \<times> xreal \<times> xreal \<times> xreal \<Rightarrow> ret_code \<times> nat \<times> complex list"
  misc_merge :: "complex list \<Rightarrow> real \<Rightarrow> ret_code \<times> nat \<times> complex list"
  misc_l2norm2 :: "complex list \<Rightarrow> real \<Rightarrow> real \<Rightarrow> real"
  misc_resample :: "nat \<Rightarrow> real \<Rightarrow> complex list \<Rightarrow> real \<Rightarrow> ret_code \<times> carray"
  malloc :: "string \<Rightarrow> carray option"
  EPSILON :: real

text \<open>The first \<open>n\<close> entries of an array, and writing a list back to the front of one.\<close>

definition entries :: "carray \<Rightarrow> nat \<Rightarrow> complex list" where
  "entries a n = map a [0..<n]"

definition store :: "carray \<Rightarrow> complex list \<Rightarrow> carray" where
  "store a xs = (\<lambda>k. if k < length xs then xs ! k else a k)"

text \<open>
  \<^verbatim>\<open>for (i = i0; i < n; i += step) body\<close>. Every such loop of the source has a positive
  constant stride or one its guard has tested positive.
\<close>

function for_loop :: "nat \<Rightarrow> nat \<Rightarrow> nat \<Rightarrow> (nat \<Rightarrow> 's \<Rightarrow> 's) \<Rightarrow> 's \<Rightarrow> 's" where
  "for_loop i n step body s =
     (if i < n \<and> 0 < step then for_loop (i + step) n step body (body i s) else s)"
  by pat_completeness auto
termination
  by (relation "measure (\<lambda>(i, n, step, body, s). n - i)") auto

declare for_loop.simps [simp del]

text \<open>The same loop with a body that can leave the function: the first status other than
  \<open>SUCCESS\<close> ends the loop and is returned with the state reached.\<close>

function for_loop_rc ::
  "nat \<Rightarrow> nat \<Rightarrow> (nat \<Rightarrow> 's \<Rightarrow> ret_code \<times> 's) \<Rightarrow> 's \<Rightarrow> ret_code \<times> 's" where
  "for_loop_rc i n body s =
     (if i < n then
        (case body i s of (rc, s') \<Rightarrow>
           if rc \<noteq> SUCCESS then (rc, s') else for_loop_rc (i + 1) n body s')
      else (SUCCESS, s))"
  by pat_completeness auto
termination
  by (relation "measure (\<lambda>(i, n, body, s). n - i)") auto

declare for_loop_rc.simps [simp del]

text \<open>C's \<^verbatim>\<open>round\<close>: to the nearest integer, halves away from zero.\<close>

definition ROUND :: "real \<Rightarrow> int" where
  "ROUND x = (if 0 \<le> x then \<lfloor>x + 1 / 2\<rfloor> else \<lceil>x - 1 / 2\<rceil>)"

section \<open>Signal resampler: \<^verbatim>\<open>signal_effective_from_signal\<close>\<close>

record effective_signal =
  Dsub :: nat
  q_effective :: carray
  r_effective :: carray
  first_index :: nat
  last_index :: nat

text \<open>The Boffetta-Osborne case of the switch: every \<open>nskip_per_step\<close>-th sample.\<close>

definition resample_BO ::
  "carray \<Rightarrow> int \<Rightarrow> nat \<Rightarrow> nat \<Rightarrow> carray \<Rightarrow> carray \<Rightarrow> carray \<times> carray" where
  "resample_BO q kappa nskip_per_step D_effective qe0 re0 =
     (case for_loop 0 D_effective 1
             (\<lambda>isub (i, qe, re).
                (i + nskip_per_step,
                 qe(isub := q i),
                 re(isub := of_int (- kappa) * cnj (q i))))
             (0, qe0, re0)
      of (i, qe, re) \<Rightarrow> (qe, re))"

text \<open>The two-node scheme CF4_2, on the two shifted copies \<open>q_1\<close> and \<open>q_2\<close>.\<close>

definition resample_CF4_2 ::
  "carray \<Rightarrow> carray \<Rightarrow> int \<Rightarrow> nat \<Rightarrow> nat \<Rightarrow> carray \<Rightarrow> carray \<Rightarrow> carray \<times> carray" where
  "resample_CF4_2 q_1 q_2 kappa nskip_per_step D_effective qe0 re0 =
     (let scl_factor = complex_of_real (sqrt 3 / 6) in
      case for_loop 0 D_effective 2
             (\<lambda>isub (i, qe, re).
                let qe1 = qe(isub := (q_1 i + q_2 i) / 4 - (q_2 i - q_1 i) * scl_factor);
                    qe2 = qe1(isub + 1 := (q_1 i + q_2 i) / 4 + (q_2 i - q_1 i) * scl_factor);
                    re1 = re(isub := of_int (- kappa) * cnj (qe2 isub));
                    re2 = re1(isub + 1 := of_int (- kappa) * cnj (qe2 (isub + 1)))
                in (i + nskip_per_step, qe2, re2))
             (0, qe0, re0)
      of (i, qe, re) \<Rightarrow> (qe, re))"

text \<open>The three-node scheme CF4_3, on the shifted copies \<open>q_1\<close>, \<open>q_3\<close> and the signal.\<close>

definition resample_CF4_3 ::
  "carray \<Rightarrow> carray \<Rightarrow> carray \<Rightarrow> int \<Rightarrow> nat \<Rightarrow> nat \<Rightarrow> carray \<Rightarrow> carray \<Rightarrow> carray \<times> carray" where
  "resample_CF4_3 q q_1 q_3 kappa nskip_per_step D_effective qe0 re0 =
     (let c1 = complex_of_real (302556833188024 / 10 ^ 15);
          c2 = complex_of_real (33333333333333 / 10 ^ 15);
          c3 = complex_of_real (5776500145310 / 10 ^ 15);
          c4 = complex_of_real (30555555555556 / 10 ^ 15);
          c5 = complex_of_real (511111111111111 / 10 ^ 15) in
      case for_loop 0 D_effective 3
             (\<lambda>isub (i, qe, re).
                let qe1 = qe(isub := c1 * q_1 i - c2 * q i + c3 * q_3 i);
                    qe2 = qe1(isub + 1 := - c4 * q_1 i + c5 * q i - c4 * q_3 i);
                    qe3 = qe2(isub + 2 := c3 * q_1 i - c2 * q i + c1 * q_3 i);
                    re1 = re(isub := of_int (- kappa) * cnj (qe3 isub));
                    re2 = re1(isub + 1 := of_int (- kappa) * cnj (qe3 (isub + 1)));
                    re3 = re2(isub + 2 := of_int (- kappa) * cnj (qe3 (isub + 2)))
                in (i + nskip_per_step, qe3, re3))
             (0, qe0, re0)
      of (i, qe, re) \<Rightarrow> (qe, re))"

text \<open>The co-field copies \<open>r_1\<close>, \<open>r_2\<close>, \<open>r_3\<close> of CF5_3 and CF6_4.\<close>

definition cofield_copies ::
  "nat \<Rightarrow> carray \<Rightarrow> carray \<Rightarrow> carray \<Rightarrow> int \<Rightarrow> carray \<times> carray \<times> carray
     \<Rightarrow> carray \<times> carray \<times> carray" where
  "cofield_copies D q q_1 q_3 kappa r0 =
     for_loop 0 D 1
       (\<lambda>i (r_1, r_2, r_3).
          (r_1(i := of_int (- kappa) * cnj (q_1 i)),
           r_2(i := of_int (- kappa) * cnj (q i)),
           r_3(i := of_int (- kappa) * cnj (q_3 i))))
       r0"

definition resample_CF5_3 ::
  "carray \<Rightarrow> carray \<Rightarrow> carray \<Rightarrow> carray \<Rightarrow> carray \<Rightarrow> carray \<Rightarrow> nat \<Rightarrow> nat
     \<Rightarrow> carray \<Rightarrow> carray \<Rightarrow> carray \<times> carray" where
  "resample_CF5_3 q q_1 q_3 r_1 r_2 r_3 nskip_per_step D_effective qe0 re0 =
     (let a1 = Complex (320333759788527 / 10 ^ 15) (55396500128741 / 10 ^ 15);
          a2 = Complex (- (22222222222222 / 10 ^ 15)) (66666666666667 / 10 ^ 15);
          a3 = Complex (1888462433695 / 10 ^ 15) (- (22063166795408 / 10 ^ 15));
          b1 = Complex (- (44444444444444 / 10 ^ 15)) (- (77459666924148 / 10 ^ 15));
          b2 = complex_of_real (488888888888889 / 10 ^ 15);
          b3 = Complex (- (44444444444444 / 10 ^ 15)) (77459666924148 / 10 ^ 15);
          c1 = Complex (1888462433695 / 10 ^ 15) (22063166795408 / 10 ^ 15);
          c2 = Complex (- (22222222222222 / 10 ^ 15)) (- (66666666666667 / 10 ^ 15));
          c3 = Complex (320333759788527 / 10 ^ 15) (- (55396500128741 / 10 ^ 15)) in
      case for_loop 0 D_effective 3
             (\<lambda>isub (i, qe, re).
                let qe1 = qe(isub := a1 * q_1 i + a2 * q i + a3 * q_3 i);
                    re1 = re(isub := a1 * r_1 i + a2 * r_2 i + a3 * r_3 i);
                    qe2 = qe1(isub + 1 := b1 * q_1 i + b2 * q i + b3 * q_3 i);
                    re2 = re1(isub + 1 := b1 * r_1 i + b2 * r_2 i + b3 * r_3 i);
                    qe3 = qe2(isub + 2 := c1 * q_1 i + c2 * q i + c3 * q_3 i);
                    re3 = re2(isub + 2 := c1 * r_1 i + c2 * r_2 i + c3 * r_3 i)
                in (i + nskip_per_step, qe3, re3))
             (0, qe0, re0)
      of (i, qe, re) \<Rightarrow> (qe, re))"

definition resample_CF6_4 ::
  "carray \<Rightarrow> carray \<Rightarrow> carray \<Rightarrow> carray \<Rightarrow> carray \<Rightarrow> carray \<Rightarrow> nat \<Rightarrow> nat
     \<Rightarrow> carray \<Rightarrow> carray \<Rightarrow> carray \<times> carray" where
  "resample_CF6_4 q q_1 q_3 r_1 r_2 r_3 nskip_per_step D_effective qe0 re0 =
     (let a1 = Complex (245985577298764 / 10 ^ 15) (38734389227165 / 10 ^ 15);
          a2 = Complex (- (46806149832549 / 10 ^ 15)) (12442141491185 / 10 ^ 15);
          a3 = Complex (10894359342569 / 10 ^ 15) (- (4575808769067 / 10 ^ 15));
          b1 = Complex (62868370946917 / 10 ^ 15) (- (48761268117765 / 10 ^ 15));
          b2 = Complex (269028372054771 / 10 ^ 15) (- (12442141491185 / 10 ^ 15));
          b3 = Complex (- (41970529810473 / 10 ^ 15)) (14602687659668 / 10 ^ 15) in
      case for_loop 0 D_effective 4
             (\<lambda>isub (i, qe, re).
                let qe1 = qe(isub := a1 * q_1 i + a2 * q i + a3 * q_3 i);
                    re1 = re(isub := a1 * r_1 i + a2 * r_2 i + a3 * r_3 i);
                    qe2 = qe1(isub + 1 := b1 * q_1 i + b2 * q i + b3 * q_3 i);
                    re2 = re1(isub + 1 := b1 * r_1 i + b2 * r_2 i + b3 * r_3 i);
                    qe3 = qe2(isub + 2 := b3 * q_1 i + b2 * q i + b1 * q_3 i);
                    re3 = re2(isub + 2 := b3 * r_1 i + b2 * r_2 i + b1 * r_3 i);
                    qe4 = qe3(isub + 3 := a3 * q_1 i + a2 * q i + a1 * q_3 i);
                    re4 = re3(isub + 3 := a3 * r_1 i + a2 * r_2 i + a1 * r_3 i)
                in (i + nskip_per_step, qe4, re4))
             (0, qe0, re0)
      of (i, qe, re) \<Rightarrow> (qe, re))"

text \<open>
  The derivative-based schemes ES4 and TES4: value nodes by subsampling, derivative nodes
  by finite differences over the effective grid. The caller has excluded
  \<open>D_effective < 9\<close>, where the edge formulas read outside the allocated block.
\<close>

definition resample_ES4 ::
  "carray \<Rightarrow> real \<Rightarrow> int \<Rightarrow> nat \<Rightarrow> nat \<Rightarrow> carray \<Rightarrow> carray \<Rightarrow> carray \<times> carray" where
  "resample_ES4 q eps_t kappa nskip_per_step D_effective qe0 re0 =
     (case for_loop 0 D_effective 3
             (\<lambda>isub (i, qe). (i + nskip_per_step, qe(isub := q i)))
             (0, qe0)
      of (i, qa) \<Rightarrow>
        let eps_t_sub = complex_of_real (eps_t * real nskip_per_step);
            eps_t_sub_2 = complex_of_real ((eps_t * real nskip_per_step) ^ 2);
            qb = qa(1 := (qa 3 - qa 0) / eps_t_sub);
            qc = qb(2 := (qb 6 - 2 * qb 3 + qb 0) / eps_t_sub_2);
            qd = qc(D_effective - 2 := (qc (D_effective - 3) - qc (D_effective - 6)) / eps_t_sub);
            qf = qd(D_effective - 1 :=
                      (qd (D_effective - 3) - 2 * qd (D_effective - 6) + qd (D_effective - 9))
                        / eps_t_sub_2);
            qg = for_loop 3 (D_effective - 3) 3
                   (\<lambda>isub qe.
                      let qe1 = qe(isub + 1 := (qe (isub + 3) - qe (isub - 3)) / (2 * eps_t_sub))
                      in qe1(isub + 2 :=
                               (qe1 (isub + 3) - 2 * qe1 isub + qe1 (isub - 3)) / eps_t_sub_2))
                   qf;
            rg = for_loop 0 D_effective 1
                   (\<lambda>i re. re(i := of_int (- kappa) * cnj (qg i)))
                   re0
        in (qg, rg))"

text \<open>
  The two band-limited copies of the signal, shifted by \<open>- delta\<close> and by \<open>delta\<close>: the two
  calls of \<^verbatim>\<open>misc_resample\<close> of a composite scheme, each followed by
  \<^verbatim>\<open>CHECK_RETCODE\<close>.
\<close>

definition shifted_copies ::
  "env \<Rightarrow> nat \<Rightarrow> carray \<Rightarrow> real \<Rightarrow> real \<Rightarrow> ret_code + carray \<times> carray" where
  "shifted_copies env D q eps_t delta =
     (case misc_resample env D eps_t (entries q D) (- delta) of
        (rc1, q_a) \<Rightarrow>
          if rc1 \<noteq> SUCCESS then Inl (E_SUBROUTINE rc1)
          else (case misc_resample env D eps_t (entries q D) delta of
                  (rc2, q_b) \<Rightarrow>
                    if rc2 \<noteq> SUCCESS then Inl (E_SUBROUTINE rc2) else Inr (q_a, q_b)))"

text \<open>The cases of \<^verbatim>\<open>switch (discretization)\<close>, one definition per case with work of
  its own to do before the loop.\<close>

definition case_CF4_2 ::
  "env \<Rightarrow> nat \<Rightarrow> carray \<Rightarrow> real \<Rightarrow> int \<Rightarrow> nat \<Rightarrow> nat \<Rightarrow> carray \<Rightarrow> carray
     \<Rightarrow> ret_code + carray \<times> carray" where
  "case_CF4_2 env D q eps_t kappa nskip_per_step D_effective qe0 re0 =
     (case (malloc env ''q_1'', malloc env ''q_2'') of
        (Some _, Some _) \<Rightarrow>
          (case shifted_copies env D q eps_t (eps_t * (sqrt 3 / 6) * real nskip_per_step) of
             Inl e \<Rightarrow> Inl e
           | Inr (q_1, q_2) \<Rightarrow>
               Inr (resample_CF4_2 q_1 q_2 kappa nskip_per_step D_effective qe0 re0))
      | _ \<Rightarrow> Inl E_NOMEM)"

definition case_CF4_3 ::
  "env \<Rightarrow> nat \<Rightarrow> carray \<Rightarrow> real \<Rightarrow> int \<Rightarrow> nat \<Rightarrow> nat \<Rightarrow> carray \<Rightarrow> carray
     \<Rightarrow> ret_code + carray \<times> carray" where
  "case_CF4_3 env D q eps_t kappa nskip_per_step D_effective qe0 re0 =
     (case (malloc env ''q_1'', malloc env ''q_3'') of
        (Some _, Some _) \<Rightarrow>
          (case shifted_copies env D q eps_t (eps_t * sqrt (3 / 20) * real nskip_per_step) of
             Inl e \<Rightarrow> Inl e
           | Inr (q_1, q_3) \<Rightarrow>
               Inr (resample_CF4_3 q q_1 q_3 kappa nskip_per_step D_effective qe0 re0))
      | _ \<Rightarrow> Inl E_NOMEM)"

text \<open>The five work arrays of CF5_3 and CF6_4; the result is the uninitialised contents
  of \<open>r_1\<close>, \<open>r_2\<close>, \<open>r_3\<close>.\<close>

definition malloc_five :: "env \<Rightarrow> (carray \<times> carray \<times> carray) option" where
  "malloc_five env =
     (case malloc env ''q_1'' of None \<Rightarrow> None | Some _ \<Rightarrow>
     (case malloc env ''q_3'' of None \<Rightarrow> None | Some _ \<Rightarrow>
     (case malloc env ''r_1'' of None \<Rightarrow> None | Some r10 \<Rightarrow>
     (case malloc env ''r_2'' of None \<Rightarrow> None | Some r20 \<Rightarrow>
     (case malloc env ''r_3'' of None \<Rightarrow> None | Some r30 \<Rightarrow> Some (r10, r20, r30))))))"

definition case_CF5_3 ::
  "env \<Rightarrow> nat \<Rightarrow> carray \<Rightarrow> real \<Rightarrow> int \<Rightarrow> nat \<Rightarrow> nat \<Rightarrow> carray \<Rightarrow> carray
     \<Rightarrow> ret_code + carray \<times> carray" where
  "case_CF5_3 env D q eps_t kappa nskip_per_step D_effective qe0 re0 =
     (case malloc_five env of
        None \<Rightarrow> Inl E_NOMEM
      | Some r0 \<Rightarrow>
          (case shifted_copies env D q eps_t (eps_t * sqrt 15 / 10 * real nskip_per_step) of
             Inl e \<Rightarrow> Inl e
           | Inr (q_1, q_3) \<Rightarrow>
               (case cofield_copies D q q_1 q_3 kappa r0 of
                  (r_1, r_2, r_3) \<Rightarrow>
                    Inr (resample_CF5_3 q q_1 q_3 r_1 r_2 r_3 nskip_per_step D_effective
                           qe0 re0))))"

definition case_CF6_4 ::
  "env \<Rightarrow> nat \<Rightarrow> carray \<Rightarrow> real \<Rightarrow> int \<Rightarrow> nat \<Rightarrow> nat \<Rightarrow> carray \<Rightarrow> carray
     \<Rightarrow> ret_code + carray \<times> carray" where
  "case_CF6_4 env D q eps_t kappa nskip_per_step D_effective qe0 re0 =
     (case malloc_five env of
        None \<Rightarrow> Inl E_NOMEM
      | Some r0 \<Rightarrow>
          (case shifted_copies env D q eps_t (eps_t * real nskip_per_step * sqrt 15 / 10) of
             Inl e \<Rightarrow> Inl e
           | Inr (q_1, q_3) \<Rightarrow>
               (case cofield_copies D q q_1 q_3 kappa r0 of
                  (r_1, r_2, r_3) \<Rightarrow>
                    Inr (resample_CF6_4 q q_1 q_3 r_1 r_2 r_3 nskip_per_step D_effective
                           qe0 re0))))"

definition case_ES4 ::
  "carray \<Rightarrow> real \<Rightarrow> int \<Rightarrow> nat \<Rightarrow> nat \<Rightarrow> carray \<Rightarrow> carray \<Rightarrow> ret_code + carray \<times> carray" where
  "case_ES4 q eps_t kappa nskip_per_step D_effective qe0 re0 =
     (if D_effective < 9 then Inl FAULT
      else Inr (resample_ES4 q eps_t kappa nskip_per_step D_effective qe0 re0))"

definition resample_switch ::
  "env \<Rightarrow> nse_discretization \<Rightarrow> nat \<Rightarrow> carray \<Rightarrow> real \<Rightarrow> int \<Rightarrow> nat \<Rightarrow> nat \<Rightarrow> carray \<Rightarrow> carray
     \<Rightarrow> ret_code + carray \<times> carray" where
  "resample_switch env d D q eps_t kappa nskip_per_step D_effective qe0 re0 =
     (case d of
        nse_discretization_BO \<Rightarrow>
          Inr (resample_BO q kappa nskip_per_step D_effective qe0 re0)
      | nse_discretization_CF4_2 \<Rightarrow>
          case_CF4_2 env D q eps_t kappa nskip_per_step D_effective qe0 re0
      | nse_discretization_CF4_3 \<Rightarrow>
          case_CF4_3 env D q eps_t kappa nskip_per_step D_effective qe0 re0
      | nse_discretization_CF5_3 \<Rightarrow>
          case_CF5_3 env D q eps_t kappa nskip_per_step D_effective qe0 re0
      | nse_discretization_CF6_4 \<Rightarrow>
          case_CF6_4 env D q eps_t kappa nskip_per_step D_effective qe0 re0
      | nse_discretization_ES4 \<Rightarrow>
          case_ES4 q eps_t kappa nskip_per_step D_effective qe0 re0
      | nse_discretization_TES4 \<Rightarrow>
          case_ES4 q eps_t kappa nskip_per_step D_effective qe0 re0
      | nse_discretization_OTHER _ \<Rightarrow> Inl E_INVALID_ARGUMENT)"

text \<open>
  The function. Its out-parameters (\<^verbatim>\<open>Dsub_ptr\<close>, the two effective arrays,
  \<^verbatim>\<open>first_last_index\<close>) are the result; they are assigned only on success, so an error
  carries no result. The four null checks on the out-parameters have no counterpart here.
\<close>

definition signal_effective_from_signal ::
  "env \<Rightarrow> nat \<Rightarrow> carray option \<Rightarrow> real \<Rightarrow> int \<Rightarrow> nat \<Rightarrow> nse_discretization
     \<Rightarrow> ret_code + effective_signal" where
  "signal_effective_from_signal env D q_ptr eps_t kappa Dsub_wanted d =
     (if D < 2 then Inl E_INVALID_ARGUMENT
      else (case q_ptr of None \<Rightarrow> Inl E_INVALID_ARGUMENT | Some q \<Rightarrow>
      (if eps_t \<le> 0 then Inl E_INVALID_ARGUMENT
       else if \<bar>kappa\<bar> \<noteq> 1 then Inl E_INVALID_ARGUMENT
       else
         (let Dsub0 = (if Dsub_wanted < 2 then 2 else Dsub_wanted);
              Dsub1 = (if Dsub0 > D then D else Dsub0);
              nskip_per_step = nat (ROUND (real D / real Dsub1));
              Dsub2 = nat (ROUND (real D / real nskip_per_step));
              D_scale = nse_discretization_D_scale env d
          in
          if D_scale = 0 then Inl E_INVALID_ARGUMENT
          else
            (let D_effective = Dsub2 * D_scale in
             case (malloc env ''q_effective'', malloc env ''r_effective'') of
               (Some qe0, Some re0) \<Rightarrow>
                 (case resample_switch env d D q eps_t kappa nskip_per_step D_effective
                         qe0 re0 of
                    Inl e \<Rightarrow> Inl e
                  | Inr (qe, re) \<Rightarrow>
                      Inr \<lparr>Dsub = Dsub2, q_effective = qe, r_effective = re,
                           first_index = 0, last_index = (Dsub2 - 1) * nskip_per_step\<rparr>)
             | _ \<Rightarrow> Inl E_NOMEM)))))"

section \<open>The scatter-matrix entry point: \<^verbatim>\<open>nse_scatter_matrix\<close>\<close>

text \<open>
  \<^verbatim>\<open>src/private/fnft__nse_scatter_matrix.c\<close>. The result array is the out-parameter;
  \<open>K\<close> is unsigned, so \<^verbatim>\<open>K <= 0.0\<close> is \<open>K = 0\<close>. A failed allocation of \<open>r\<close> sets the
  status but does not leave the function: the loop that follows writes through the null
  pointer.
\<close>

definition nse_scatter_matrix ::
  "env \<Rightarrow> nat \<Rightarrow> carray option \<Rightarrow> real \<Rightarrow> int \<Rightarrow> nat \<Rightarrow> carray option \<Rightarrow> carray option
     \<Rightarrow> nse_discretization \<Rightarrow> ret_code \<times> carray option" where
  "nse_scatter_matrix env D q_ptr eps_t kappa K lambda_ptr result_ptr discretization =
     (if D = 0 then (E_INVALID_ARGUMENT, result_ptr)
      else (case q_ptr of None \<Rightarrow> (E_INVALID_ARGUMENT, result_ptr) | Some q \<Rightarrow>
      (if \<not> eps_t > 0 then (E_INVALID_ARGUMENT, result_ptr)
      else if \<bar>kappa\<bar> \<noteq> 1 then (E_INVALID_ARGUMENT, result_ptr)
      else if K = 0 then (E_INVALID_ARGUMENT, result_ptr)
      else (case lambda_ptr of None \<Rightarrow> (E_INVALID_ARGUMENT, result_ptr) | Some lam \<Rightarrow>
      (case result_ptr of None \<Rightarrow> (E_INVALID_ARGUMENT, result_ptr) | Some result \<Rightarrow>
      (case discretization of
         nse_discretization_BO \<Rightarrow>
           (case malloc env ''r'' of
              None \<Rightarrow> (FAULT, result_ptr)
            | Some r0 \<Rightarrow>
                let r = (if kappa = 1
                         then for_loop 0 D 1 (\<lambda>i r. r(i := - cnj (q i))) r0
                         else for_loop 0 D 1 (\<lambda>i r. r(i := cnj (q i))) r0)
                in (case akns_scatter_matrix env D (entries q D) (entries r D) eps_t
                           (entries lam K) akns_discretization_BO of
                      (rc, res) \<Rightarrow> (rc, Some res)))
       | _ \<Rightarrow> (E_INVALID_ARGUMENT, result_ptr)))))))"

section \<open>Options of \<^verbatim>\<open>fnft_nsev_slow\<close>\<close>

text \<open>
  The option enumerations of \<^verbatim>\<open>fnft_nsev.h\<close>, with the constants the source names. A
  filtering policy other than \<open>NONE\<close> and \<open>FULL\<close> is the basic one; \<open>OTHER\<close> stands for the
  values the source sends to a \<^verbatim>\<open>default:\<close> branch.
\<close>

datatype nsev_bsfilt = nsev_bsfilt_NONE | nsev_bsfilt_BASIC | nsev_bsfilt_FULL

datatype nsev_bsloc = nsev_bsloc_NEWTON | nsev_bsloc_OTHER

datatype nsev_dstype =
  nsev_dstype_NORMING_CONSTANTS | nsev_dstype_RESIDUES | nsev_dstype_BOTH | nsev_dstype_OTHER

datatype nsev_cstype =
  nsev_cstype_REFLECTION_COEFFICIENT | nsev_cstype_AB | nsev_cstype_BOTH | nsev_cstype_OTHER

record fnft_nsev_slow_opts_t =
  bound_state_filtering :: nsev_bsfilt
  bound_state_localization :: nsev_bsloc
  niter :: nat
  discspec_type :: nsev_dstype
  contspec_type :: nsev_cstype
  normalization_flag :: int
  discretization :: nse_discretization
  richardson_extrapolation_flag :: nat

definition default_opts :: fnft_nsev_slow_opts_t where
  "default_opts =
     \<lparr>bound_state_filtering = nsev_bsfilt_FULL,
      bound_state_localization = nsev_bsloc_NEWTON,
      niter = 10,
      discspec_type = nsev_dstype_NORMING_CONSTANTS,
      contspec_type = nsev_cstype_REFLECTION_COEFFICIENT,
      normalization_flag = 1,
      discretization = nse_discretization_BO,
      richardson_extrapolation_flag = 0\<rparr>"

section \<open>Bound-state solver: \<^verbatim>\<open>refine_roots_newton\<close>\<close>

definition re_bound :: "real \<Rightarrow> real" where
  "re_bound eps_t = 9 / 10 * pi / \<bar>2 * eps_t\<bar>"

definition im_bound :: "env \<Rightarrow> nat \<Rightarrow> carray \<Rightarrow> real \<times> real \<Rightarrow> real" where
  "im_bound env D q T = 3 / 2 * (1 / 4) * misc_l2norm2 env (entries q D) (fst T) (snd T)"

text \<open>The test after each Newton update: the updated value has left the region.\<close>

definition out_of_region :: "real \<Rightarrow> real \<Rightarrow> complex \<Rightarrow> bool" where
  "out_of_region re_bound_val im_bound_val lam =
     (Im lam > im_bound_val \<or> Re lam > re_bound_val \<or> Re lam < - re_bound_val \<or> Im lam < 0)"

text \<open>
  The \<^verbatim>\<open>do { ... } while (CABS(error) > eprecision && iter < niter)\<close> loop for one
  candidate. \<open>scatter lam\<close> is the call of \<^verbatim>\<open>nse_scatter_bound_states\<close> on the single value
  \<open>lam\<close>; its outputs \<^verbatim>\<open>a_val\<close> and \<^verbatim>\<open>aprime_val\<close> are entry 0 of the arrays it fills.
  The result is the status and the value left in \<^verbatim>\<open>bound_states[i]\<close>.
\<close>

function newton_do_while ::
  "(complex \<Rightarrow> ret_code \<times> carray \<times> carray \<times> carray) \<Rightarrow> nat \<Rightarrow> real \<Rightarrow> real \<Rightarrow> real
     \<Rightarrow> nat \<Rightarrow> complex \<Rightarrow> ret_code \<times> complex" where
  "newton_do_while scatter niter eprecision re_bound_val im_bound_val iter lam =
     (case scatter lam of (ret_code, a_vals, aprime_vals, b_vals) \<Rightarrow>
        if ret_code \<noteq> SUCCESS then (E_SUBROUTINE (E_SUBROUTINE ret_code), lam)
        else if aprime_vals 0 = 0 then (E_DIV_BY_ZERO, lam)
        else if out_of_region re_bound_val im_bound_val (lam - a_vals 0 / aprime_vals 0)
          then (SUCCESS, lam - a_vals 0 / aprime_vals 0)
        else if cmod (a_vals 0 / aprime_vals 0) > eprecision \<and> iter + 1 < niter
          then newton_do_while scatter niter eprecision re_bound_val im_bound_val
                 (iter + 1) (lam - a_vals 0 / aprime_vals 0)
        else (SUCCESS, lam - a_vals 0 / aprime_vals 0))"
  for niter
  by pat_completeness auto
termination
  by (relation "measure (\<lambda>(scatter, niter, eprecision, re_bound_val, im_bound_val, iter, lam).
        niter - iter)") auto

declare newton_do_while.simps [simp del]

text \<open>
  The function. \<^verbatim>\<open>im_bound_val == NAN\<close> is false for every double, so that branch is
  absent. \<open>r\<close> is handed to the scatter engine unexamined.
\<close>

definition refine_roots_newton ::
  "env \<Rightarrow> nat \<Rightarrow> carray option \<Rightarrow> carray \<Rightarrow> (real \<times> real) option \<Rightarrow> nat \<Rightarrow> carray option
     \<Rightarrow> nse_discretization \<Rightarrow> nat \<Rightarrow> ret_code \<times> carray option" where
  "refine_roots_newton env D q_ptr r T_ptr K bound_states_ptr discretization niter =
     (if K = 0 then (SUCCESS, bound_states_ptr)
      else if niter = 0 then (SUCCESS, bound_states_ptr)
      else (case bound_states_ptr of None \<Rightarrow> (E_INVALID_ARGUMENT, bound_states_ptr)
      | Some bound_states \<Rightarrow>
      (case q_ptr of None \<Rightarrow> (E_INVALID_ARGUMENT, bound_states_ptr) | Some q \<Rightarrow>
      (case T_ptr of None \<Rightarrow> (E_INVALID_ARGUMENT, bound_states_ptr) | Some T \<Rightarrow>
        (let D_scale = nse_discretization_D_scale env discretization in
         if D_scale = 0 then (E_INVALID_ARGUMENT, bound_states_ptr)
         else
           (let D_given = D div D_scale;
                eps_t = (snd T - fst T) / real (D_given - 1);
                eprecision = EPSILON env * 100;
                im_bound_val = real D_scale * real D_scale * im_bound env D q T;
                re_bound_val = re_bound eps_t;
                scatter = (\<lambda>lam. nse_scatter_bound_states env D (entries q D) (entries r D)
                                     T [lam] discretization 1)
            in case for_loop_rc 0 K
                      (\<lambda>i bs.
                         case newton_do_while scatter niter eprecision re_bound_val
                                im_bound_val 0 (bs i) of
                           (rc, lam) \<Rightarrow> (rc, bs(i := lam)))
                      bound_states
               of (rc, bs) \<Rightarrow> (rc, Some bs)))))))"
  for discretization niter

section \<open>Norming constants and residues: \<^verbatim>\<open>compute_normconsts_or_residues\<close>\<close>

text \<open>\<^verbatim>\<open>memcpy(dst + d, src + s, n * sizeof(COMPLEX))\<close> within one array.\<close>

definition memcpy_within :: "carray \<Rightarrow> nat \<Rightarrow> nat \<Rightarrow> nat \<Rightarrow> carray" where
  "memcpy_within a d s n = (\<lambda>k. if d \<le> k \<and> k < d + n then a (s + (k - d)) else a k)"

text \<open>
  The scatter engine writes \<open>b\<close> into \<^verbatim>\<open>normconsts_or_residues\<close> (its out-array of length
  \<open>K\<close>) and the derivatives into \<^verbatim>\<open>aprime_vals\<close>. The result is the status and the
  contents of \<^verbatim>\<open>normconsts_or_residues\<close> at the return.
\<close>

definition compute_normconsts_or_residues ::
  "env \<Rightarrow> nat \<Rightarrow> carray option \<Rightarrow> carray \<Rightarrow> real \<times> real \<Rightarrow> nat \<Rightarrow> carray \<Rightarrow> carray
     \<Rightarrow> fnft_nsev_slow_opts_t \<Rightarrow> ret_code \<times> carray" where
  "compute_normconsts_or_residues env D q_ptr r T K bound_states normconsts_or_residues opts =
     (if K = 0 then (SUCCESS, normconsts_or_residues)
      else if D = 0 then (E_INVALID_ARGUMENT, normconsts_or_residues)
      else (case q_ptr of None \<Rightarrow> (E_INVALID_ARGUMENT, normconsts_or_residues) | Some q \<Rightarrow>
      (case (malloc env ''a_vals'', malloc env ''aprime_vals'') of
         (Some _, Some _) \<Rightarrow>
           (case nse_scatter_bound_states env D (entries q D) (entries r D) T
                   (entries bound_states K) (discretization opts) 0 of
              (rc, a_vals, aprime_vals, b) \<Rightarrow>
                (let nc = store normconsts_or_residues (entries b K) in
                 if rc \<noteq> SUCCESS then (E_SUBROUTINE rc, nc)
                 else if discspec_type opts \<noteq> nsev_dstype_NORMING_CONSTANTS then
                   (if discspec_type opts = nsev_dstype_RESIDUES then
                      for_loop_rc 0 K
                        (\<lambda>i nc. if aprime_vals i = 0 then (E_DIV_BY_ZERO, nc)
                                 else (SUCCESS, nc(0 + i := nc (0 + i) / aprime_vals i)))
                        nc
                    else if discspec_type opts = nsev_dstype_BOTH then
                      for_loop_rc 0 K
                        (\<lambda>i nc. if aprime_vals i = 0 then (E_DIV_BY_ZERO, nc)
                                 else (SUCCESS, nc(K + i := nc (K + i) / aprime_vals i)))
                        (memcpy_within nc K 0 K)
                    else (E_INVALID_ARGUMENT, nc))
                 else (SUCCESS, nc)))
       | _ \<Rightarrow> (E_NOMEM, normconsts_or_residues))))"

section \<open>Continuous-spectrum assembler\<close>

text \<open>
  The \<^verbatim>\<open>switch (opts->contspec_type)\<close> of \<^verbatim>\<open>fnft_nsev_slow_base\<close>: from the scatter
  coefficients \<open>[S11, S12, S21, S22]\<close> of each grid point (four entries per point) to the
  output array. \<open>T\<close> is the time window, \<open>eps_t\<close> the step size and \<open>boundary_coeff\<close> the
  scheme's coefficient. The case \<open>BOTH\<close> falls through both loops with \<open>offset = M\<close>.
\<close>

definition reflection_loop :: "nat \<Rightarrow> carray \<Rightarrow> carray \<Rightarrow> real \<Rightarrow> carray \<Rightarrow> ret_code \<times> carray" where
  "reflection_loop M xi scatter_coeffs phase_factor_rho contspec =
     for_loop_rc 0 M
       (\<lambda>i c. if scatter_coeffs (i * 4) = 0 then (E_DIV_BY_ZERO, c)
               else (SUCCESS,
                     c(i := scatter_coeffs (i * 4 + 2)
                              * exp (\<i> * xi i * complex_of_real phase_factor_rho)
                              / scatter_coeffs (i * 4))))
       contspec"

definition ab_loop :: "nat \<Rightarrow> nat \<Rightarrow> carray \<Rightarrow> carray \<Rightarrow> real \<Rightarrow> real \<Rightarrow> carray \<Rightarrow> carray" where
  "ab_loop M offset xi scatter_coeffs phase_factor_a phase_factor_b contspec =
     for_loop 0 M 1
       (\<lambda>i c.
          let c1 = c(offset + i := scatter_coeffs (i * 4)
                                     * exp (\<i> * xi i * complex_of_real phase_factor_a))
          in c1(offset + M + i := scatter_coeffs (i * 4 + 2)
                                     * exp (\<i> * xi i * complex_of_real phase_factor_b)))
       contspec"

definition assemble_contspec ::
  "nsev_cstype \<Rightarrow> nat \<Rightarrow> carray \<Rightarrow> carray \<Rightarrow> real \<times> real \<Rightarrow> real \<Rightarrow> real \<Rightarrow> carray
     \<Rightarrow> ret_code \<times> carray" where
  "assemble_contspec cstype M xi scatter_coeffs T eps_t boundary_coeff contspec =
     (let phase_factor_rho = - 2 * (snd T + eps_t * boundary_coeff);
          phase_factor_a = (snd T + eps_t * boundary_coeff) - (fst T - eps_t * boundary_coeff);
          phase_factor_b = - (snd T + eps_t * boundary_coeff) - (fst T - eps_t * boundary_coeff)
      in case cstype of
           nsev_cstype_BOTH \<Rightarrow>
             (case reflection_loop M xi scatter_coeffs phase_factor_rho contspec of
                (rc, c) \<Rightarrow>
                  if rc \<noteq> SUCCESS then (rc, c)
                  else (SUCCESS, ab_loop M M xi scatter_coeffs phase_factor_a phase_factor_b c))
         | nsev_cstype_REFLECTION_COEFFICIENT \<Rightarrow>
             reflection_loop M xi scatter_coeffs phase_factor_rho contspec
         | nsev_cstype_AB \<Rightarrow>
             (SUCCESS, ab_loop M 0 xi scatter_coeffs phase_factor_a phase_factor_b contspec)
         | nsev_cstype_OTHER \<Rightarrow> (E_INVALID_ARGUMENT, contspec))"

section \<open>One pipeline run: \<^verbatim>\<open>fnft_nsev_slow_base\<close>\<close>

text \<open>
  The caller's output memory: the three output arrays and the cell behind \<^verbatim>\<open>K_ptr\<close>,
  each \<open>None\<close> when the pointer is \<^verbatim>\<open>NULL\<close>. A function returns its status together
  with the memory it leaves behind, also on an error.
\<close>

record buffers =
  out_contspec :: "carray option"
  out_K :: "nat option"
  out_bound_states :: "carray option"
  out_normconsts_or_residues :: "carray option"

text \<open>
  The continuous spectrum: the grid, the scatter engine, the assembler. The engine is
  called here with ten arguments (with \<open>r\<close> and a derivative flag); the definition in
  \<^verbatim>\<open>src/private/fnft__nse_scatter_matrix.c\<close> has eight, so the callee of this file is
  not among the sources and is the parameter \<open>nse_scatter_matrix_slow\<close>.
  \<^verbatim>\<open>boundary_coeff == NAN\<close> is false for every double, so that branch is absent.
  The grid is \<open>xi i = XI\<^sub>0 + eps_xi i\<close> with \<open>eps_xi = (XI\<^sub>1 - XI\<^sub>0) / (M - 1)\<close>.
\<close>

definition compute_contspec ::
  "env \<Rightarrow> nat \<Rightarrow> carray \<Rightarrow> carray \<Rightarrow> real \<times> real \<Rightarrow> real \<Rightarrow> nat \<Rightarrow> real \<times> real \<Rightarrow> int
     \<Rightarrow> fnft_nsev_slow_opts_t \<Rightarrow> carray \<Rightarrow> ret_code \<times> carray" where
  "compute_contspec env D q r T eps_t M XI kappa opts contspec =
     (case (malloc env ''xi'', malloc env ''scatter_coeffs'') of
        (Some xi0, Some _) \<Rightarrow>
          (let eps_xi = (snd XI - fst XI) / real (M - 1);
               xi = for_loop 0 M 1
                      (\<lambda>i xi. xi(i := complex_of_real (fst XI + eps_xi * real i))) xi0
           in case nse_scatter_matrix_slow env D (entries q D) (entries r D) eps_t kappa
                     (entries xi M) (discretization opts) of
                (rc, scatter_coeffs) \<Rightarrow>
                  if rc \<noteq> SUCCESS then (E_SUBROUTINE rc, contspec)
                  else assemble_contspec (contspec_type opts) M xi scatter_coeffs T eps_t
                         (nse_discretization_boundary_coeff env (discretization opts))
                         contspec)
      | _ \<Rightarrow> (E_NOMEM, contspec))"

text \<open>One call of \<^verbatim>\<open>misc_filter(&K, buffer, NULL, bounding_box)\<close>, and one of
  \<^verbatim>\<open>misc_merge(&K, buffer, tol)\<close>: the callee sees and rewrites the first \<open>K\<close> entries.\<close>

definition filter_call ::
  "env \<Rightarrow> xreal \<times> xreal \<times> xreal \<times> xreal \<Rightarrow> nat \<Rightarrow> carray \<Rightarrow> ret_code \<times> nat \<times> carray" where
  "filter_call env bounding_box K buffer =
     (case misc_filter env (entries buffer K) bounding_box of
        (rc, K', vals) \<Rightarrow> (rc, K', store buffer (take K vals)))"

definition merge_call :: "env \<Rightarrow> real \<Rightarrow> nat \<Rightarrow> carray \<Rightarrow> ret_code \<times> nat \<times> carray" where
  "merge_call env tol K buffer =
     (case misc_merge env (entries buffer K) tol of
        (rc, K', vals) \<Rightarrow> (rc, K', store buffer (take K vals)))"

text \<open>The bound on the imaginary part for the full filter; for an oversampling scheme the
  norm is taken over a rescaled copy of every \<open>D_scale\<close>-th effective sample.\<close>

definition full_im_bound ::
  "env \<Rightarrow> nat \<Rightarrow> nat \<Rightarrow> carray \<Rightarrow> real \<times> real \<Rightarrow> ret_code + real" where
  "full_im_bound env D_scale D_given q T =
     (if D_scale = 1 then Inr (im_bound env D_given q T)
      else (case malloc env ''q_tmp'' of
              None \<Rightarrow> Inl E_NOMEM
            | Some q_tmp0 \<Rightarrow>
                (case for_loop 0 D_given 1
                        (\<lambda>i (j, q_tmp). (j + D_scale, q_tmp(i := of_nat D_scale * q j)))
                        (1, q_tmp0)
                 of (j, q_tmp) \<Rightarrow> Inr (im_bound env D_given q_tmp T))))"

text \<open>
  The discrete spectrum, entered when \<open>kappa = 1\<close> and \<^verbatim>\<open>bound_states\<close> is not null.
  \<open>K0\<close> is the value behind \<^verbatim>\<open>K_ptr\<close> at entry; the local \<open>K\<close> is threaded through the
  filter and merge calls and stored behind \<^verbatim>\<open>K_ptr\<close> at the very end. The call of
  \<^verbatim>\<open>compute_normconsts_or_residues\<close> reads \<^verbatim>\<open>*K_ptr\<close>, which still holds \<open>K0\<close>.
\<close>

definition compute_discspec ::
  "env \<Rightarrow> nat \<Rightarrow> carray \<Rightarrow> carray \<Rightarrow> real \<times> real \<Rightarrow> real \<Rightarrow> nat \<Rightarrow> nat
     \<Rightarrow> fnft_nsev_slow_opts_t \<Rightarrow> nat \<Rightarrow> carray \<Rightarrow> buffers \<Rightarrow> ret_code \<times> buffers" where
  "compute_discspec env D q r T eps_t D_scale D_given opts K0 bound_states0 bufs =
     (case bound_state_localization opts of
        nsev_bsloc_OTHER \<Rightarrow> (E_INVALID_ARGUMENT, bufs)
      | nsev_bsloc_NEWTON \<Rightarrow>
        (case refine_roots_newton env D (Some q) r (Some T) K0 (Some bound_states0)
                (discretization opts) (niter opts) of
           (rc1, bs_ptr1) \<Rightarrow>
        (case bs_ptr1 of None \<Rightarrow> (FAULT, bufs) | Some bs1 \<Rightarrow>
         if rc1 \<noteq> SUCCESS then (E_SUBROUTINE rc1, bufs\<lparr>out_bound_states := Some bs1\<rparr>)
         else
        (case (if bound_state_filtering opts \<noteq> nsev_bsfilt_NONE
               then filter_call env (MInf, PInf, Fin 0, PInf) K0 bs1
               else (SUCCESS, K0, bs1)) of
           (rc2, K2, bs2) \<Rightarrow>
         if rc2 \<noteq> SUCCESS then (E_SUBROUTINE rc2, bufs\<lparr>out_bound_states := Some bs2\<rparr>)
         else
        (case (if bound_state_filtering opts = nsev_bsfilt_FULL
               then (case full_im_bound env D_scale D_given q T of
                       Inl e \<Rightarrow> (e, K2, bs2)
                     | Inr im_bound_val \<Rightarrow>
                         (case filter_call env
                                 (Fin (- re_bound eps_t), Fin (re_bound eps_t), Fin 0,
                                  Fin im_bound_val) K2 bs2 of
                            (rc, K', bs') \<Rightarrow>
                              (if rc \<noteq> SUCCESS then E_SUBROUTINE rc else SUCCESS, K', bs')))
               else (SUCCESS, K2, bs2)) of
           (rc3, K3, bs3) \<Rightarrow>
         if rc3 \<noteq> SUCCESS then (rc3, bufs\<lparr>out_bound_states := Some bs3\<rparr>)
         else
        (case merge_call env (sqrt (EPSILON env)) K3 bs3 of
           (rc4, K4, bs4) \<Rightarrow>
         if rc4 \<noteq> SUCCESS then (E_SUBROUTINE rc4, bufs\<lparr>out_bound_states := Some bs4\<rparr>)
         else
        (case (case out_normconsts_or_residues bufs of
                 None \<Rightarrow> (SUCCESS, None)
               | Some nc \<Rightarrow>
                   if K0 \<noteq> 0
                   then (case compute_normconsts_or_residues env D (Some q) r T K0 bs4 nc opts of
                           (rc, nc') \<Rightarrow> (rc, Some nc'))
                   else (SUCCESS, Some nc)) of
           (rc5, nc_ptr5) \<Rightarrow>
         if rc5 \<noteq> SUCCESS
         then (E_SUBROUTINE rc5,
               bufs\<lparr>out_bound_states := Some bs4, out_normconsts_or_residues := nc_ptr5\<rparr>)
         else (SUCCESS,
               bufs\<lparr>out_K := Some K4, out_bound_states := Some bs4,
                    out_normconsts_or_residues := nc_ptr5\<rparr>))))))))"

text \<open>
  The function. \<open>D\<close> is the number of effective samples; the step size is that of the
  original samples. \<open>r\<close> is handed on unexamined.
\<close>

definition fnft_nsev_slow_base ::
  "env \<Rightarrow> nat \<Rightarrow> carray option \<Rightarrow> carray \<Rightarrow> (real \<times> real) option \<Rightarrow> nat
     \<Rightarrow> (real \<times> real) option \<Rightarrow> int \<Rightarrow> fnft_nsev_slow_opts_t option \<Rightarrow> buffers
     \<Rightarrow> ret_code \<times> buffers" where
  "fnft_nsev_slow_base env D q_ptr r T_ptr M XI_ptr kappa opts_ptr bufs =
     (if D < 2 then (E_INVALID_ARGUMENT, bufs)
      else (case q_ptr of None \<Rightarrow> (E_INVALID_ARGUMENT, bufs) | Some q \<Rightarrow>
      (case T_ptr of None \<Rightarrow> (E_INVALID_ARGUMENT, bufs) | Some T \<Rightarrow>
      (if fst T \<ge> snd T then (E_INVALID_ARGUMENT, bufs)
       else if out_contspec bufs \<noteq> None
               \<and> (case XI_ptr of None \<Rightarrow> True | Some XI \<Rightarrow> fst XI \<ge> snd XI)
         then (E_INVALID_ARGUMENT, bufs)
       else if \<bar>kappa\<bar> \<noteq> 1 then (E_INVALID_ARGUMENT, bufs)
       else if out_bound_states bufs \<noteq> None \<and> out_K bufs = None
         then (E_INVALID_ARGUMENT, bufs)
       else
         (let opts = (case opts_ptr of None \<Rightarrow> default_opts | Some opts \<Rightarrow> opts);
              D_scale = nse_discretization_D_scale env (discretization opts)
          in
          if D_scale = 0 then (E_INVALID_ARGUMENT, bufs)
          else
            (let D_given = D div D_scale;
                 eps_t = (snd T - fst T) / real (D_given - 1)
             in
             case (case (out_contspec bufs, XI_ptr) of
                     (Some contspec, Some XI) \<Rightarrow>
                       if M > 0
                       then (case compute_contspec env D q r T eps_t M XI kappa opts contspec of
                               (rc, contspec') \<Rightarrow> (rc, bufs\<lparr>out_contspec := Some contspec'\<rparr>))
                       else (SUCCESS, bufs)
                   | _ \<Rightarrow> (SUCCESS, bufs)) of
               (rc, bufs1) \<Rightarrow>
                 if rc \<noteq> SUCCESS then (rc, bufs1)
                 else if kappa = 1 \<and> out_bound_states bufs1 \<noteq> None then
                   (case (out_bound_states bufs1, out_K bufs1) of
                      (Some bound_states0, Some K0) \<Rightarrow>
                        compute_discspec env D q r T eps_t D_scale D_given opts K0
                          bound_states0 bufs1
                    | _ \<Rightarrow> (FAULT, bufs1))
                 else if out_K bufs1 \<noteq> None then (SUCCESS, bufs1\<lparr>out_K := Some 0\<rparr>)
                 else (SUCCESS, bufs1)))))))"

section \<open>Richardson extrapolation\<close>

text \<open>
  The test \<^verbatim>\<open>FABS(XI[0]+dxi*i) < 0.9*PI/(2.0*eps_t_sub)\<close> with
  \<^verbatim>\<open>dxi = (XI[1]-XI[0])/(M-1)\<close>. For \<open>M = 1\<close> the step \<open>dxi\<close> is a quotient by zero,
  \<^verbatim>\<open>dxi*0\<close> is NaN and the comparison is false.
\<close>

definition in_nyquist_band :: "real \<times> real \<Rightarrow> nat \<Rightarrow> real \<Rightarrow> nat \<Rightarrow> bool" where
  "in_nyquist_band XI M eps_t_sub i =
     (M \<noteq> 1 \<and>
      \<bar>fst XI + (snd XI - fst XI) / real (M - 1) * real i\<bar> < 9 / 10 * pi / (2 * eps_t_sub))"

text \<open>The Richardson step on the continuous spectrum (the loop over \<open>i\<close> and, inside it,
  over the blocks \<open>j = 0, M, 2M, ...\<close> below \<open>contspec_len\<close>).\<close>

definition richardson_contspec ::
  "nat \<Rightarrow> nat \<Rightarrow> real \<times> real \<Rightarrow> real \<Rightarrow> real \<Rightarrow> real \<Rightarrow> carray \<Rightarrow> carray \<Rightarrow> carray" where
  "richardson_contspec M contspec_len XI eps_t_sub scl_num scl_den contspec_sub contspec =
     for_loop 0 M 1
       (\<lambda>i c.
          if in_nyquist_band XI M eps_t_sub i
          then for_loop 0 contspec_len M
                 (\<lambda>j c. c(i + j := (complex_of_real scl_num * c (i + j) - contspec_sub (i + j))
                                     / complex_of_real scl_den))
                 c
          else c)
       contspec"

text \<open>
  The search for the nearest sub-run eigenvalue: the loop over \<open>j\<close> with the running
  threshold \<^verbatim>\<open>bs_err_thres\<close> (initially \<open>eps_t\<close>) and the index \<open>loc\<close> (initially
  \<open>K_sub\<close>, meaning none). The relative distance is a quotient by \<^verbatim>\<open>CABS(bound_states[i])\<close>;
  when that is zero the quotient is infinite or NaN and \<^verbatim>\<open>bs_err < bs_err_thres\<close> is
  false.
\<close>

definition rel_dist_below :: "complex \<Rightarrow> complex \<Rightarrow> real \<Rightarrow> bool" where
  "rel_dist_below lam lam_sub thres =
     (cmod lam \<noteq> 0 \<and> cmod (lam - lam_sub) / cmod lam < thres)"

definition nearest_sub :: "real \<Rightarrow> nat \<Rightarrow> carray \<Rightarrow> complex \<Rightarrow> real \<times> nat" where
  "nearest_sub eps_t K_sub bound_states_sub lam =
     for_loop 0 K_sub 1
       (\<lambda>j (bs_err_thres, loc).
          if rel_dist_below lam (bound_states_sub j) bs_err_thres
          then (cmod (lam - bound_states_sub j) / cmod lam, j)
          else (bs_err_thres, loc))
       (eps_t, K_sub)"

text \<open>
  The body of the loop over the full-run eigenvalues. The state is the three arrays the
  body writes: \<^verbatim>\<open>bound_states\<close>, \<^verbatim>\<open>normconsts_or_residues_reserve\<close> (which may be a
  null pointer) and \<^verbatim>\<open>normconsts_or_residues_sub\<close>.
\<close>

definition richardson_bound_state ::
  "real \<Rightarrow> real \<Rightarrow> real \<Rightarrow> nat \<Rightarrow> nat \<Rightarrow> nsev_dstype \<Rightarrow> carray \<Rightarrow> nat
     \<Rightarrow> carray \<times> carray option \<times> carray \<Rightarrow> ret_code \<times> carray \<times> carray option \<times> carray" where
  "richardson_bound_state eps_t scl_num scl_den K K_sub ds_type_opt bound_states_sub i st =
     (case st of (bs, reserve_ptr, nc_sub) \<Rightarrow>
        (let loc = snd (nearest_sub eps_t K_sub bound_states_sub (bs i)) in
         if loc < K_sub then
           (let bs' = bs(i := (complex_of_real scl_num * bs i - bound_states_sub loc)
                                / complex_of_real scl_den)
            in
            if ds_type_opt = nsev_dstype_RESIDUES \<or> ds_type_opt = nsev_dstype_BOTH then
              (case reserve_ptr of
                 None \<Rightarrow> (FAULT, bs', reserve_ptr, nc_sub)
               | Some res \<Rightarrow>
                   (let res1 = res(K + i := res i / res (K + i));
                        sub1 = nc_sub(K_sub + loc := nc_sub loc / nc_sub (K_sub + loc));
                        res2 = res1(K + i := (complex_of_real scl_num * res1 (K + i)
                                                - sub1 (loc + K_sub))
                                               / complex_of_real scl_den);
                        res3 = res2(K + i := res2 i / res2 (K + i))
                    in (SUCCESS, bs', Some res3, sub1)))
            else (SUCCESS, bs', reserve_ptr, nc_sub))
         else (SUCCESS, bs, reserve_ptr, nc_sub)))"

definition richardson_bound_states ::
  "real \<Rightarrow> real \<Rightarrow> real \<Rightarrow> nat \<Rightarrow> nat \<Rightarrow> nsev_dstype \<Rightarrow> carray
     \<Rightarrow> carray \<times> carray option \<times> carray \<Rightarrow> ret_code \<times> carray \<times> carray option \<times> carray" where
  "richardson_bound_states eps_t scl_num scl_den K K_sub ds_type_opt bound_states_sub st =
     for_loop_rc 0 K
       (richardson_bound_state eps_t scl_num scl_den K K_sub ds_type_opt bound_states_sub) st"

text \<open>
  The bound-state part of the Richardson step with its surroundings: the choice of the
  reserve array and the two \<^verbatim>\<open>memcpy\<close> calls after the loop. \<open>reserve_fresh\<close> is the block
  allocated for \<^verbatim>\<open>normconsts_or_residues_reserve\<close> when residues were requested (nothing
  is written to it before this step); otherwise the reserve pointer is the caller's
  \<^verbatim>\<open>normconsts_or_residues\<close> itself, so the loop's writes land in the caller's array and
  a final copy of the array onto itself changes nothing.
\<close>

definition richardson_discspec ::
  "real \<Rightarrow> real \<Rightarrow> real \<Rightarrow> nat \<Rightarrow> nat \<Rightarrow> nsev_dstype \<Rightarrow> carray option \<Rightarrow> carray \<Rightarrow> carray
     \<Rightarrow> carray \<Rightarrow> buffers \<Rightarrow> ret_code \<times> buffers" where
  "richardson_discspec eps_t scl_num scl_den K K_sub ds_type_opt reserve_fresh
       bound_states_sub nc_sub bs bufs =
     (let reserve_ptr = (case reserve_fresh of
                           Some fresh \<Rightarrow> Some fresh
                         | None \<Rightarrow> out_normconsts_or_residues bufs)
      in case richardson_bound_states eps_t scl_num scl_den K K_sub ds_type_opt
                bound_states_sub (bs, reserve_ptr, nc_sub) of
           (rc, bs', reserve_ptr', nc_sub') \<Rightarrow>
             (let bufs1 = bufs\<lparr>out_bound_states := Some bs',
                               out_normconsts_or_residues :=
                                 (case reserve_fresh of
                                    Some fresh \<Rightarrow> out_normconsts_or_residues bufs
                                  | None \<Rightarrow> reserve_ptr')\<rparr>
              in
              if rc \<noteq> SUCCESS then (rc, bufs1)
              else if ds_type_opt = nsev_dstype_RESIDUES then
                (case (out_normconsts_or_residues bufs1, reserve_ptr') of
                   (Some nc, Some res) \<Rightarrow>
                     (SUCCESS,
                      bufs1\<lparr>out_normconsts_or_residues :=
                               Some (\<lambda>k. if k < K then res (K + k) else nc k)\<rparr>)
                 | _ \<Rightarrow> (FAULT, bufs1))
              else if ds_type_opt = nsev_dstype_BOTH then
                (case (out_normconsts_or_residues bufs1, reserve_ptr') of
                   (Some nc, Some res) \<Rightarrow>
                     (SUCCESS,
                      bufs1\<lparr>out_normconsts_or_residues :=
                               Some (\<lambda>k. if k < 2 * K then res k else nc k)\<rparr>)
                 | _ \<Rightarrow> (FAULT, bufs1))
              else (SUCCESS, bufs1)))"

text \<open>
  The buffers of the sub-run. \<^verbatim>\<open>contspec_sub\<close> is allocated when a continuous spectrum
  is computed; \<^verbatim>\<open>bound_states_sub\<close> and \<^verbatim>\<open>normconsts_or_residues_sub\<close> when the full
  run kept bound states, the former a copy of the full run's. \<^verbatim>\<open>K_sub\<close> is otherwise
  uninitialised; the sub-run then overwrites it without reading it, and the model starts
  it at 0.
\<close>

definition richardson_sub_buffers ::
  "env \<Rightarrow> nat \<Rightarrow> int \<Rightarrow> fnft_nsev_slow_opts_t \<Rightarrow> buffers \<Rightarrow> ret_code + nat \<times> buffers" where
  "richardson_sub_buffers env M kappa opts bufs =
     (case (if out_contspec bufs \<noteq> None \<and> M > 0 then
              (case contspec_type opts of
                 nsev_cstype_BOTH \<Rightarrow> Inr (3 * M)
               | nsev_cstype_REFLECTION_COEFFICIENT \<Rightarrow> Inr M
               | nsev_cstype_AB \<Rightarrow> Inr (2 * M)
               | nsev_cstype_OTHER \<Rightarrow> Inl E_INVALID_ARGUMENT)
            else Inr 0) of
        Inl e \<Rightarrow> Inl e
      | Inr contspec_len \<Rightarrow>
        (case (if out_contspec bufs \<noteq> None \<and> M > 0 then
                 (case malloc env ''contspec_sub'' of
                    None \<Rightarrow> Inl E_NOMEM
                  | Some c \<Rightarrow> Inr (Some c))
               else Inr None) of
           Inl e \<Rightarrow> Inl e
         | Inr contspec_sub \<Rightarrow>
           (case (out_bound_states bufs, out_K bufs) of
              (Some bs, Some K) \<Rightarrow>
                if kappa = 1 \<and> K \<noteq> 0 then
                  (if discspec_type opts = nsev_dstype_OTHER then Inl E_INVALID_ARGUMENT
                   else
                     (case (malloc env ''normconsts_or_residues_sub'',
                            malloc env ''bound_states_sub'') of
                        (Some nc_sub, Some bs_sub0) \<Rightarrow>
                          Inr (contspec_len,
                               \<lparr>out_contspec = contspec_sub, out_K = Some K,
                                out_bound_states =
                                  Some (for_loop 0 K 1 (\<lambda>i b. b(i := bs i)) bs_sub0),
                                out_normconsts_or_residues = Some nc_sub\<rparr>)
                      | _ \<Rightarrow> Inl E_NOMEM))
                else Inr (contspec_len,
                          \<lparr>out_contspec = contspec_sub, out_K = Some 0,
                           out_bound_states = None, out_normconsts_or_residues = None\<rparr>)
            | _ \<Rightarrow> Inr (contspec_len,
                        \<lparr>out_contspec = contspec_sub, out_K = Some 0,
                         out_bound_states = None, out_normconsts_or_residues = None\<rparr>))))"

text \<open>
  The Richardson branch of \<^verbatim>\<open>fnft_nsev_slow\<close>, entered after the full run has
  succeeded and left \<open>bufs\<close>. \<^verbatim>\<open>CEIL(D/2)\<close> is taken of an integer quotient. \<open>XI\<close> is
  dereferenced for \<open>dxi\<close> whether or not a continuous spectrum was requested.
\<close>

definition richardson ::
  "env \<Rightarrow> nat \<Rightarrow> carray \<Rightarrow> real \<times> real \<Rightarrow> real \<Rightarrow> nat \<Rightarrow> nat \<Rightarrow> (real \<times> real) option \<Rightarrow> int
     \<Rightarrow> fnft_nsev_slow_opts_t \<Rightarrow> nsev_dstype \<Rightarrow> carray option \<Rightarrow> buffers
     \<Rightarrow> ret_code \<times> buffers" where
  "richardson env D q T eps_t D_scale M XI_ptr kappa opts ds_type_opt reserve_fresh bufs =
     (case richardson_sub_buffers env M kappa opts bufs of
        Inl e \<Rightarrow> (e, bufs)
      | Inr (contspec_len, sub_bufs) \<Rightarrow>
        (let method_order = nse_discretization_method_order env (discretization opts) in
         if method_order = 0 then (E_INVALID_ARGUMENT, bufs)
         else
        (case signal_effective_from_signal env D (Some q) eps_t kappa (D div 2)
                (discretization opts) of
           Inl e \<Rightarrow> (E_SUBROUTINE e, bufs)
         | Inr sig \<Rightarrow>
        (let Tsub = (fst T + real (first_index sig) * eps_t,
                     fst T + real (last_index sig) * eps_t);
             eps_t_sub = (snd Tsub - fst Tsub) / real (Dsub sig - 1)
         in
         case fnft_nsev_slow_base env (Dsub sig * D_scale) (Some (q_effective sig))
                (r_effective sig) (Some Tsub) M XI_ptr kappa
                (Some (opts\<lparr>bound_state_localization := nsev_bsloc_NEWTON\<rparr>)) sub_bufs of
           (rc, sub_bufs') \<Rightarrow>
         if rc \<noteq> SUCCESS then (E_SUBROUTINE rc, bufs)
         else
        (let scl_num = (real D / real (Dsub sig)) ^ method_order;
             scl_den = scl_num - 1
         in
         case XI_ptr of
           None \<Rightarrow> (FAULT, bufs)
         | Some XI \<Rightarrow>
        (let bufs1 =
               (case (out_contspec bufs, out_contspec sub_bufs') of
                  (Some contspec, Some contspec_sub) \<Rightarrow>
                    if M > 0
                    then bufs\<lparr>out_contspec :=
                                Some (richardson_contspec M contspec_len XI eps_t_sub scl_num
                                        scl_den contspec_sub contspec)\<rparr>
                    else bufs
                | _ \<Rightarrow> bufs)
         in
         case (out_bound_states bufs1, out_K bufs1, out_K sub_bufs',
               out_bound_states sub_bufs', out_normconsts_or_residues sub_bufs') of
           (Some bs, Some K, Some K_sub, Some bound_states_sub, Some nc_sub) \<Rightarrow>
             if kappa = 1 \<and> K \<noteq> 0 \<and> K_sub \<noteq> 0
             then richardson_discspec eps_t scl_num scl_den K K_sub ds_type_opt reserve_fresh
                    bound_states_sub nc_sub bs bufs1
             else (SUCCESS, bufs1)
         | _ \<Rightarrow> (SUCCESS, bufs1)))))))"

section \<open>The primary entry point: \<^verbatim>\<open>fnft_nsev_slow\<close>\<close>

text \<open>
  The function after its input checks, with \<open>q\<close> and \<open>T\<close> known not to be null. When
  Richardson extrapolation is on and residues are requested, the option is switched to
  \<open>BOTH\<close> and the reserve block is allocated with a size read through \<^verbatim>\<open>K_ptr\<close>. The
  full run is handed the caller's \<^verbatim>\<open>normconsts_or_residues\<close>, not the reserve block.
  The options record is the caller's; the model keeps its changes local.
\<close>

definition fnft_nsev_slow_run ::
  "env \<Rightarrow> nat \<Rightarrow> carray \<Rightarrow> real \<times> real \<Rightarrow> nat \<Rightarrow> (real \<times> real) option \<Rightarrow> int
     \<Rightarrow> fnft_nsev_slow_opts_t \<Rightarrow> buffers \<Rightarrow> ret_code \<times> buffers" where
  "fnft_nsev_slow_run env D q T M XI_ptr kappa opts0 bufs =
     (let eps_t = (snd T - fst T) / real (D - 1);
          ds_type_opt = discspec_type opts0
      in
      case (if richardson_extrapolation_flag opts0 = 1 \<and> ds_type_opt = nsev_dstype_RESIDUES
            then (case out_K bufs of
                    None \<Rightarrow> Inl FAULT
                  | Some K \<Rightarrow>
                      (case malloc env ''normconsts_or_residues_reserve'' of
                         None \<Rightarrow> Inl E_NOMEM
                       | Some fresh \<Rightarrow>
                           Inr (opts0\<lparr>discspec_type := nsev_dstype_BOTH\<rparr>, Some fresh)))
            else Inr (opts0, None)) of
        Inl e \<Rightarrow> (e, bufs)
      | Inr (opts, reserve_fresh) \<Rightarrow>
        (let D_scale = nse_discretization_D_scale env (discretization opts) in
         if D_scale = 0 then (E_INVALID_ARGUMENT, bufs)
         else
        (case signal_effective_from_signal env D (Some q) eps_t kappa D (discretization opts) of
           Inl e \<Rightarrow> (E_SUBROUTINE e, bufs)
         | Inr sig \<Rightarrow>
        (case fnft_nsev_slow_base env (D * D_scale) (Some (q_effective sig)) (r_effective sig)
                (Some T) M XI_ptr kappa (Some opts) bufs of
           (rc, bufs1) \<Rightarrow>
             if rc \<noteq> SUCCESS then (E_SUBROUTINE rc, bufs1)
             else if richardson_extrapolation_flag opts = 1
               then richardson env D q T eps_t D_scale M XI_ptr kappa opts ds_type_opt
                      reserve_fresh bufs1
             else (SUCCESS, bufs1)))))"

definition fnft_nsev_slow ::
  "env \<Rightarrow> nat \<Rightarrow> carray option \<Rightarrow> (real \<times> real) option \<Rightarrow> nat \<Rightarrow> (real \<times> real) option \<Rightarrow> int
     \<Rightarrow> fnft_nsev_slow_opts_t option \<Rightarrow> buffers \<Rightarrow> ret_code \<times> buffers" where
  "fnft_nsev_slow env D q_ptr T_ptr M XI_ptr kappa opts_ptr bufs =
     (if D < 2 then (E_INVALID_ARGUMENT, bufs)
      else (case q_ptr of None \<Rightarrow> (E_INVALID_ARGUMENT, bufs) | Some q \<Rightarrow>
      (case T_ptr of None \<Rightarrow> (E_INVALID_ARGUMENT, bufs) | Some T \<Rightarrow>
      (if fst T \<ge> snd T then (E_INVALID_ARGUMENT, bufs)
       else if out_contspec bufs \<noteq> None
               \<and> (case XI_ptr of None \<Rightarrow> True | Some XI \<Rightarrow> fst XI \<ge> snd XI)
         then (E_INVALID_ARGUMENT, bufs)
       else if \<bar>kappa\<bar> \<noteq> 1 then (E_INVALID_ARGUMENT, bufs)
       else if out_bound_states bufs \<noteq> None \<and> out_K bufs = None
         then (E_INVALID_ARGUMENT, bufs)
       else fnft_nsev_slow_run env D q T M XI_ptr kappa
              (case opts_ptr of None \<Rightarrow> default_opts | Some opts \<Rightarrow> opts) bufs))))"

section \<open>Filter, merge and a concrete environment\<close>

text \<open>
  Modelled from the spec: \<^verbatim>\<open>misc_filter\<close> is not among the sources. The spec has it "drop
  every candidate outside the box in a single pass, compacting the surviving set in place;
  the count is updated in place". The survivors move to the front in their order; the
  entries behind them keep what they held.
\<close>

fun xle :: "xreal \<Rightarrow> real \<Rightarrow> bool" where
  "xle MInf x = True"
| "xle (Fin a) x = (a \<le> x)"
| "xle PInf x = False"

fun xge :: "xreal \<Rightarrow> real \<Rightarrow> bool" where
  "xge PInf x = True"
| "xge (Fin a) x = (x \<le> a)"
| "xge MInf x = False"

definition in_box :: "xreal \<times> xreal \<times> xreal \<times> xreal \<Rightarrow> complex \<Rightarrow> bool" where
  "in_box bounding_box z =
     (case bounding_box of (lo_re, hi_re, lo_im, hi_im) \<Rightarrow>
        xle lo_re (Re z) \<and> xge hi_re (Re z) \<and> xle lo_im (Im z) \<and> xge hi_im (Im z))"

definition misc_filter_spec ::
  "complex list \<Rightarrow> xreal \<times> xreal \<times> xreal \<times> xreal \<Rightarrow> ret_code \<times> nat \<times> complex list" where
  "misc_filter_spec vals bounding_box =
     (let kept = filter (in_box bounding_box) vals
      in (SUCCESS, length kept, kept @ drop (length kept) vals))"

text \<open>
  Modelled from the spec: \<^verbatim>\<open>misc_merge\<close> is not among the sources. The spec has it
  "coalesce any two candidates whose distance is below" the tolerance, "keeping one
  representative", with no promise which one; here the first of each cluster stays.
\<close>

fun merge_list :: "real \<Rightarrow> complex list \<Rightarrow> complex list" where
  "merge_list tol [] = []"
| "merge_list tol (x # xs) = x # merge_list tol (filter (\<lambda>y. \<not> cmod (x - y) < tol) xs)"

definition misc_merge_spec :: "complex list \<Rightarrow> real \<Rightarrow> ret_code \<times> nat \<times> complex list" where
  "misc_merge_spec vals tol =
     (let kept = merge_list tol vals
      in (SUCCESS, length kept, kept @ drop (length kept) vals))"

text \<open>
  An environment for the concrete runs below. The scatter engine reports \<open>a = 0\<close>,
  \<open>a' = 1\<close> and, as \<open>b\<close>, the number of spectral values it was handed; scatter matrices have
  \<open>S11 = 1\<close> and the other entries 0; resampling returns the signal unshifted; every
  allocation succeeds with zeroed memory.
\<close>

definition example_env :: env where
  "example_env =
     \<lparr>nse_discretization_D_scale =
        (\<lambda>d. case d of
                nse_discretization_BO \<Rightarrow> 1
              | nse_discretization_CF4_2 \<Rightarrow> 2
              | nse_discretization_CF4_3 \<Rightarrow> 3
              | nse_discretization_CF5_3 \<Rightarrow> 3
              | nse_discretization_CF6_4 \<Rightarrow> 4
              | nse_discretization_ES4 \<Rightarrow> 3
              | nse_discretization_TES4 \<Rightarrow> 3
              | nse_discretization_OTHER _ \<Rightarrow> 0),
      nse_discretization_method_order =
        (\<lambda>d. case d of
                nse_discretization_BO \<Rightarrow> 1
              | nse_discretization_CF4_2 \<Rightarrow> 4
              | nse_discretization_CF4_3 \<Rightarrow> 4
              | nse_discretization_CF5_3 \<Rightarrow> 5
              | nse_discretization_CF6_4 \<Rightarrow> 6
              | nse_discretization_ES4 \<Rightarrow> 4
              | nse_discretization_TES4 \<Rightarrow> 4
              | nse_discretization_OTHER _ \<Rightarrow> 0),
      nse_discretization_boundary_coeff = (\<lambda>d. 1 / 2),
      nse_scatter_matrix_slow =
        (\<lambda>D q r eps_t kappa xi d. (SUCCESS, \<lambda>k. if k mod 4 = 0 then 1 else 0)),
      nse_scatter_bound_states =
        (\<lambda>D q r T lams d skip_b. (SUCCESS, \<lambda>k. 0, \<lambda>k. 1, \<lambda>k. of_nat (length lams))),
      akns_scatter_matrix = (\<lambda>D q r eps_t lams d. (SUCCESS, \<lambda>k. 0)),
      misc_filter = misc_filter_spec,
      misc_merge = misc_merge_spec,
      misc_l2norm2 = (\<lambda>vals a b. 4),
      misc_resample =
        (\<lambda>D eps_t vals delta. (SUCCESS, \<lambda>k. if k < length vals then vals ! k else 0)),
      malloc = (\<lambda>site. Some (\<lambda>k. 0)),
      EPSILON = 1 / 2 ^ 52\<rparr>"

text \<open>Output memory with two bound-state guesses, \<open>-\<i>\<close> and \<open>\<i>\<close>, and no continuous
  spectrum requested.\<close>

definition example_buffers :: buffers where
  "example_buffers =
     \<lparr>out_contspec = None, out_K = Some 2,
      out_bound_states = Some (\<lambda>k. if k = 0 then - \<i> else \<i>),
      out_normconsts_or_residues = Some (\<lambda>k. 0)\<rparr>"


text \<open>The same environment with scatter matrices whose entry \<open>S21\<close> is the number of
  samples they were computed from, so that the full run and the sub-run differ.\<close>

definition richardson_env :: env where
  "richardson_env =
     example_env\<lparr>nse_scatter_matrix_slow :=
        (\<lambda>D q r eps_t kappa xi d. (SUCCESS, \<lambda>k. if k mod 4 = 0 then 1 else of_nat D))\<rparr>"

text \<open>
  An environment for a run with residues and Richardson extrapolation. The scatter engine
  reports \<open>a' = 2\<close> and \<open>b = 6\<close>, so every residue is 3; it reports \<open>a = 0\<close>, except on two
  samples at a value of imaginary part 1, where \<open>a = \<i>\<close>: the full run keeps the guess \<open>\<i>\<close>
  and the sub-run on two samples moves it to \<open>\<i> / 2\<close>. The block allocated for
  \<^verbatim>\<open>normconsts_or_residues_reserve\<close> holds \<open>fresh\<close>, whatever the memory held; every other
  allocation is zeroed.
\<close>

definition residues_env :: "carray \<Rightarrow> env" where
  "residues_env fresh =
     example_env\<lparr>nse_scatter_bound_states :=
        (\<lambda>D q r T lams d skip_b.
           (SUCCESS, \<lambda>k. if D = 2 \<and> Im (hd lams) = 1 then \<i> else 0, \<lambda>k. 2, \<lambda>k. 6)),
      malloc := (\<lambda>site. if site = ''normconsts_or_residues_reserve'' then Some fresh
                          else Some (\<lambda>k. 0))\<rparr>"


section \<open>Loop rules\<close>

text \<open>Invariant rules for the two loop combinators, and the closed forms of the loops that
  fill or rewrite an array entry by entry.\<close>

lemma for_loop_rule:
  assumes "P i s" and "i \<le> n"
    and "\<And>j t. i \<le> j \<Longrightarrow> j < n \<Longrightarrow> P j t \<Longrightarrow> P (Suc j) (body j t)"
  shows "P n (for_loop i n 1 body s)"
  using assms
proof (induction "n - i" arbitrary: i s)
  case 0
  then have "i = n" by simp
  then show ?case using 0 by (subst for_loop.simps) simp
next
  case (Suc d)
  then have lt: "i < n" by simp
  have "P n (for_loop (Suc i) n 1 body (body i s))"
  proof (rule Suc.hyps(1))
    show "d = n - Suc i" using Suc.hyps(2) by simp
    show "P (Suc i) (body i s)" using Suc.prems lt by simp
    show "Suc i \<le> n" using lt by simp
    show "\<And>j t. Suc i \<le> j \<Longrightarrow> j < n \<Longrightarrow> P j t \<Longrightarrow> P (Suc j) (body j t)"
      using Suc.prems(3) by simp
  qed
  then show ?case using lt by (subst for_loop.simps) simp
qed

lemma for_loop_rc_rule:
  assumes "for_loop_rc i n body s = (SUCCESS, t)" and "P i s" and "i \<le> n"
    and "\<And>j u u'. i \<le> j \<Longrightarrow> j < n \<Longrightarrow> P j u \<Longrightarrow> body j u = (SUCCESS, u') \<Longrightarrow> P (Suc j) u'"
  shows "P n t"
  using assms
proof (induction i n body s rule: for_loop_rc.induct)
  case (1 i n body s)
  show ?case
  proof (cases "i < n")
    case True
    obtain rc s' where b: "body i s = (rc, s')" by (cases "body i s")
    from "1.prems"(1) True b have rc: "rc = SUCCESS"
      by (subst (asm) for_loop_rc.simps) (auto split: if_splits)
    from "1.prems"(1) True b rc have r: "for_loop_rc (i + 1) n body s' = (SUCCESS, t)"
      by (subst (asm) for_loop_rc.simps) auto
    have "P (Suc i) s'" using "1.prems"(4)[OF _ True "1.prems"(2)] b rc by simp
    then show ?thesis
      using True b rc r "1.prems" by (intro "1.IH"[OF True b[symmetric] _ r]) auto
  next
    case False
    then show ?thesis using 1 by (subst (asm) for_loop_rc.simps) simp
  qed
qed

lemma for_loop_rc_status:
  assumes "\<And>j u. i \<le> j \<Longrightarrow> j < n \<Longrightarrow> fst (body j u) = (if bad j then e else SUCCESS)"
    and "e \<noteq> SUCCESS"
  shows "fst (for_loop_rc i n body s) = (if \<exists>j. i \<le> j \<and> j < n \<and> bad j then e else SUCCESS)"
  using assms(1)
proof (induction "n - i" arbitrary: i s)
  case 0
  then show ?case by (subst for_loop_rc.simps) auto
next
  case (Suc d)
  then have lt: "i < n" by simp
  obtain rc s' where b: "body i s = (rc, s')" by (cases "body i s")
  have rc: "rc = (if bad i then e else SUCCESS)"
    using Suc.prems[of i s] lt b by simp
  show ?case
  proof (cases "bad i")
    case True
    then show ?thesis using lt b rc assms(2)
      by (subst for_loop_rc.simps) auto
  next
    case False
    have IH: "fst (for_loop_rc (Suc i) n body s') =
                (if \<exists>j. Suc i \<le> j \<and> j < n \<and> bad j then e else SUCCESS)"
      using Suc.hyps(2) Suc.prems by (intro Suc.hyps(1)) auto
    have "(\<exists>j. Suc i \<le> j \<and> j < n \<and> bad j) = (\<exists>j. i \<le> j \<and> j < n \<and> bad j)"
      using False by (metis Suc_leD Suc_leI le_neq_implies_less)
    then show ?thesis using lt b rc False IH
      by (subst for_loop_rc.simps) auto
  qed
qed

lemma for_loop_rc_all_success:
  assumes "\<And>j u. i \<le> j \<Longrightarrow> j < n \<Longrightarrow> body j u = (SUCCESS, f j u)"
  shows "for_loop_rc i n body s = (SUCCESS, for_loop i n 1 f s)"
  using assms
proof (induction "n - i" arbitrary: i s)
  case 0
  then show ?case by (subst for_loop_rc.simps, subst for_loop.simps) simp
next
  case (Suc d)
  then have lt: "i < n" by simp
  have IH: "for_loop_rc (Suc i) n body (f i s) = (SUCCESS, for_loop (Suc i) n 1 f (f i s))"
    using Suc.hyps(2) Suc.prems by (intro Suc.hyps(1)) auto
  show ?case using lt Suc.prems[of i s] IH
    by (subst for_loop_rc.simps, subst for_loop.simps) simp
qed

lemma for_loop_pointwise:
  "for_loop 0 n 1 (\<lambda>i c. c(i := g i (c i))) (c0 :: nat \<Rightarrow> 'a) =
     (\<lambda>k. if k < n then g k (c0 k) else c0 k)"
proof -
  let ?P = "\<lambda>j (c :: nat \<Rightarrow> 'a). c = (\<lambda>k. if k < j then g k (c0 k) else c0 k)"
  have "?P n (for_loop 0 n 1 (\<lambda>i c. c(i := g i (c i))) c0)"
    by (rule for_loop_rule[where P = "?P"]) (auto simp: fun_eq_iff less_Suc_eq)
  then show ?thesis .
qed

lemma for_loop_fill:
  "for_loop 0 n 1 (\<lambda>i c. c(i := g i)) (c0 :: nat \<Rightarrow> 'a) = (\<lambda>k. if k < n then g k else c0 k)"
  using for_loop_pointwise[of n "\<lambda>i _. g i" c0] .


section \<open>Closed form of the direct resampling loop\<close>

lemma resample_BO_eq:
  "resample_BO q kappa nskip D_effective qe0 re0 =
     ((\<lambda>k. if k < D_effective then q (k * nskip) else qe0 k),
      (\<lambda>k. if k < D_effective then of_int (- kappa) * cnj (q (k * nskip)) else re0 k))"
proof -
  let ?body = "\<lambda>isub (i, qe, re).
                (i + nskip, qe(isub := q i), re(isub := of_int (- kappa) * cnj (q i)))"
  let ?P = "\<lambda>j (s :: nat \<times> carray \<times> carray).
      s = (j * nskip,
           (\<lambda>k. if k < j then q (k * nskip) else qe0 k),
           (\<lambda>k. if k < j then of_int (- kappa) * cnj (q (k * nskip)) else re0 k))"
  have "?P D_effective (for_loop 0 D_effective 1 ?body (0, qe0, re0))"
  proof (rule for_loop_rule[where P = "?P"])
    show "?P 0 (0, qe0, re0)" by simp
    show "0 \<le> D_effective" by simp
    show "?P (Suc j) (?body j t)" if "?P j t" for j t
      using that by (auto simp: fun_eq_iff less_Suc_eq)
  qed
  then show ?thesis by (simp add: resample_BO_def)
qed

lemma ROUND_nonneg: "0 \<le> x \<Longrightarrow> ROUND x = \<lfloor>x + 1 / 2\<rfloor>"
  by (simp add: ROUND_def)

text \<open>
  The stride is at least one, and the last sample that the direct loop reads lies inside the
  signal.
\<close>

lemma nskip_positive:
  fixes D c :: nat
  assumes "2 \<le> c" "c \<le> D"
  shows "1 \<le> nat (ROUND (real D / real c))"
proof -
  have "1 \<le> real D / real c" using assms by (simp add: field_simps)
  then have "1 \<le> \<lfloor>real D / real c + 1 / 2\<rfloor>" by linarith
  then have "1 \<le> nat \<lfloor>real D / real c + 1 / 2\<rfloor>" by linarith
  moreover have "ROUND (real D / real c) = \<lfloor>real D / real c + 1 / 2\<rfloor>"
    by (simp add: ROUND_def)
  ultimately show ?thesis by (simp only:)
qed

lemma last_sample_in_range:
  fixes D n :: nat
  assumes n: "1 \<le> n" and D: "1 \<le> D"
  shows "(nat (ROUND (real D / real n)) - 1) * n < D"
proof -
  define m where "m = \<lfloor>real D / real n + 1 / 2\<rfloor>"
  have R: "ROUND (real D / real n) = m" by (simp add: ROUND_def m_def)
  show ?thesis
  proof (cases "m \<le> 1")
    case True
    then have "nat m - 1 = 0" by simp
    then show ?thesis using D R by simp
  next
    case False
    then have m2: "2 \<le> m" by simp
    have "real_of_int m \<le> real D / real n + 1 / 2" unfolding m_def by linarith
    then have "(real_of_int m - 1) * real n \<le> (real D / real n - 1 / 2) * real n"
      using n by (intro mult_right_mono) simp_all
    also have "\<dots> = real D - real n / 2" using n by (simp add: field_simps)
    also have "\<dots> < real D" using n by simp
    finally have lt: "(real_of_int m - 1) * real n < real D" .
    have "real ((nat m - 1) * n) = (real_of_int m - 1) * real n"
      using m2 by (simp add: of_nat_diff)
    then have "real ((nat m - 1) * n) < real D" using lt by (simp only:)
    then have "(nat m - 1) * n < D" by (simp only: of_nat_less_iff)
    then show ?thesis by (simp only: R)
  qed
qed


section \<open>Evaluation on concrete inputs\<close>

text \<open>The definitions a concrete run unfolds.\<close>

lemmas run_defs =
  fnft_nsev_slow_def fnft_nsev_slow_run_def signal_effective_from_signal_def resample_switch_def
  ROUND_def resample_BO_eq fnft_nsev_slow_base_def example_env_def example_buffers_def
  default_opts_def compute_discspec_def refine_roots_newton_def for_loop_rc.simps
  newton_do_while.simps E_SUBROUTINE_def entries_def upt_conv_Cons out_of_region_def re_bound_def
  im_bound_def filter_call_def merge_call_def misc_filter_spec_def misc_merge_spec_def in_box_def
  store_def compute_normconsts_or_residues_def full_im_bound_def

lemmas richardson_defs =
  richardson_def richardson_sub_buffers_def compute_contspec_def assemble_contspec_def
  reflection_loop_def ab_loop_def richardson_contspec_def in_nyquist_band_def for_loop.simps
  richardson_discspec_def richardson_bound_states_def richardson_bound_state_def nearest_sub_def
  rel_dist_below_def

section \<open>The Newton iteration and the admissible region\<close>





section \<open>The count handed to the norming-constant computation\<close>

text \<open>
  Claim C2 says that norming constants are computed for exactly the bound states that
  survive filtering and merging. The code hands \<^verbatim>\<open>*K_ptr\<close> to
  \<^verbatim>\<open>compute_normconsts_or_residues\<close>, and \<^verbatim>\<open>*K_ptr\<close> is updated to the surviving
  count only after that call. A run on two guesses \<open>\<i>\<close> and \<open>-\<i>\<close> with no Newton iteration:
  the filter drops \<open>-\<i>\<close> and the run reports one bound state, but the scatter engine was
  handed two values (it reports that number as \<open>b\<close>) and two output entries are written,
  the second for the discarded guess still lying behind the survivor.
\<close>

theorem normconsts_for_stale_count:
  "(case fnft_nsev_slow example_env 2 (Some (\<lambda>k. 1)) (Some (0, 1)) 0 None 1
           (Some (default_opts\<lparr>niter := 0\<rparr>))
           (example_buffers\<lparr>out_bound_states := Some (\<lambda>k. if k = 0 then \<i> else - \<i>)\<rparr>) of
      (rc, bufs) \<Rightarrow>
        (rc, out_K bufs,
         map_option (\<lambda>nc. (nc 0, nc 1)) (out_normconsts_or_residues bufs),
         map_option (\<lambda>b. (b 0, b 1)) (out_bound_states bufs)))
   = (SUCCESS, Some 1, Some (2, 2), Some (\<i>, - \<i>))"
  by (simp add: run_defs)

section \<open>The continuous-spectrum assembler\<close>

lemma reflection_loop_ok:
  assumes "\<forall>i<M. sc (i * 4) \<noteq> 0"
  shows "reflection_loop M xi sc phi c0 =
     (SUCCESS, \<lambda>k. if k < M then sc (k * 4 + 2) * exp (\<i> * xi k * complex_of_real phi) / sc (k * 4)
                     else c0 k)"
proof -
  have "reflection_loop M xi sc phi c0 =
      (SUCCESS, for_loop 0 M 1
         (\<lambda>i c. c(i := sc (i * 4 + 2) * exp (\<i> * xi i * complex_of_real phi) / sc (i * 4))) c0)"
    unfolding reflection_loop_def using assms by (intro for_loop_rc_all_success) simp
  then show ?thesis unfolding for_loop_fill .
qed

lemma reflection_loop_status:
  "fst (reflection_loop M xi sc phi c0) = (if \<exists>i<M. sc (i * 4) = 0 then E_DIV_BY_ZERO else SUCCESS)"
proof -
  have "fst (reflection_loop M xi sc phi c0) =
      (if \<exists>j. 0 \<le> j \<and> j < M \<and> sc (j * 4) = 0 then E_DIV_BY_ZERO else SUCCESS)"
    unfolding reflection_loop_def by (rule for_loop_rc_status) auto
  then show ?thesis by simp
qed

lemma ab_loop_eq:
  "ab_loop M offset xi sc pa pb c0 =
     (\<lambda>k. if offset + M \<le> k \<and> k < offset + M + M
            then sc ((k - offset - M) * 4 + 2) * exp (\<i> * xi (k - offset - M) * complex_of_real pb)
          else if offset \<le> k \<and> k < offset + M
            then sc ((k - offset) * 4) * exp (\<i> * xi (k - offset) * complex_of_real pa)
          else c0 k)"
proof -
  let ?R = "\<lambda>j k. if offset + M \<le> k \<and> k < offset + M + j
            then sc ((k - offset - M) * 4 + 2) * exp (\<i> * xi (k - offset - M) * complex_of_real pb)
          else if offset \<le> k \<and> k < offset + j
            then sc ((k - offset) * 4) * exp (\<i> * xi (k - offset) * complex_of_real pa)
          else c0 k"
  let ?P = "\<lambda>j (c :: carray). j \<le> M \<and> c = ?R j"
  have "?P M (ab_loop M offset xi sc pa pb c0)"
    unfolding ab_loop_def
  proof (rule for_loop_rule[where P = "?P"])
    show "?P 0 c0" by (auto simp: fun_eq_iff)
    show "0 \<le> M" by simp
    show "?P (Suc j) (let c1 = t(offset + j := sc (j * 4) * exp (\<i> * xi j * complex_of_real pa))
             in c1(offset + M + j := sc (j * 4 + 2) * exp (\<i> * xi j * complex_of_real pb)))"
      if "0 \<le> j" "j < M" "?P j t" for j t
      using that by (auto simp: fun_eq_iff Let_def less_Suc_eq)
  qed
  then show ?thesis by simp
qed

text \<open>
  Claim C3. With \<open>S (4 i)\<close> the entry \<open>S11\<close> and \<open>S (4 i + 2)\<close> the entry \<open>S21\<close> at grid point
  \<open>xi i\<close>: when the reflection coefficient is requested, alone or together with the raw
  coefficients, the assembler fails with \<open>E_DIV_BY_ZERO\<close> exactly when \<open>S11\<close> is zero at some
  grid point, and otherwise writes \<open>S21 exp(\<i> xi\<^sub>i phi_rho) / S11\<close> to entry \<open>i\<close>, with
  \<open>phi_rho = - 2 (T\<^sub>1 + eps_t boundary_coeff)\<close>. When the raw coefficients are requested it
  writes \<open>a = S11 exp(\<i> xi\<^sub>i phi_a)\<close> and \<open>b = S21 exp(\<i> xi\<^sub>i phi_b)\<close>, with
  \<open>phi_a = (T\<^sub>1 + eps_t boundary_coeff) - (T\<^sub>0 - eps_t boundary_coeff)\<close> and
  \<open>phi_b = - (T\<^sub>1 + eps_t boundary_coeff) - (T\<^sub>0 - eps_t boundary_coeff)\<close>: to the entries \<open>i\<close>
  and \<open>M + i\<close> when they are requested alone, and to the entries \<open>M + i\<close> and \<open>2 M + i\<close>,
  behind the reflection coefficient, when both are requested.
\<close>

theorem contspec_assembler:
  assumes "phi_rho = - 2 * (snd T + eps_t * boundary_coeff)"
    and "phi_a = (snd T + eps_t * boundary_coeff) - (fst T - eps_t * boundary_coeff)"
    and "phi_b = - (snd T + eps_t * boundary_coeff) - (fst T - eps_t * boundary_coeff)"
  shows "(fst (assemble_contspec nsev_cstype_REFLECTION_COEFFICIENT M xi S T eps_t boundary_coeff
                 contspec) = E_DIV_BY_ZERO \<longleftrightarrow> (\<exists>i<M. S (i * 4) = 0))
       \<and> ((\<forall>i<M. S (i * 4) \<noteq> 0) \<longrightarrow>
            (\<exists>c. assemble_contspec nsev_cstype_REFLECTION_COEFFICIENT M xi S T eps_t boundary_coeff
                   contspec = (SUCCESS, c)
                \<and> (\<forall>i<M. c i = S (i * 4 + 2) * exp (\<i> * xi i * complex_of_real phi_rho)
                                  / S (i * 4))))
       \<and> (\<exists>c. assemble_contspec nsev_cstype_AB M xi S T eps_t boundary_coeff contspec
                 = (SUCCESS, c)
              \<and> (\<forall>i<M. c i = S (i * 4) * exp (\<i> * xi i * complex_of_real phi_a)
                       \<and> c (M + i) = S (i * 4 + 2) * exp (\<i> * xi i * complex_of_real phi_b)))
       \<and> (fst (assemble_contspec nsev_cstype_BOTH M xi S T eps_t boundary_coeff contspec)
            = E_DIV_BY_ZERO \<longleftrightarrow> (\<exists>i<M. S (i * 4) = 0))
       \<and> ((\<forall>i<M. S (i * 4) \<noteq> 0) \<longrightarrow>
            (\<exists>c. assemble_contspec nsev_cstype_BOTH M xi S T eps_t boundary_coeff contspec
                   = (SUCCESS, c)
                \<and> (\<forall>i<M. c i = S (i * 4 + 2) * exp (\<i> * xi i * complex_of_real phi_rho)
                                  / S (i * 4)
                         \<and> c (M + i) = S (i * 4) * exp (\<i> * xi i * complex_of_real phi_a)
                         \<and> c (2 * M + i)
                             = S (i * 4 + 2) * exp (\<i> * xi i * complex_of_real phi_b))))"
proof (intro conjI impI)
  show "fst (assemble_contspec nsev_cstype_REFLECTION_COEFFICIENT M xi S T eps_t boundary_coeff
                 contspec) = E_DIV_BY_ZERO \<longleftrightarrow> (\<exists>i<M. S (i * 4) = 0)"
    by (simp add: assemble_contspec_def reflection_loop_status)
next
  assume "\<forall>i<M. S (i * 4) \<noteq> 0"
  then show "\<exists>c. assemble_contspec nsev_cstype_REFLECTION_COEFFICIENT M xi S T eps_t boundary_coeff
                   contspec = (SUCCESS, c)
                \<and> (\<forall>i<M. c i = S (i * 4 + 2) * exp (\<i> * xi i * complex_of_real phi_rho)
                                  / S (i * 4))"
    using assms(1) by (simp add: assemble_contspec_def reflection_loop_ok)
next
  show "\<exists>c. assemble_contspec nsev_cstype_AB M xi S T eps_t boundary_coeff contspec
                 = (SUCCESS, c)
              \<and> (\<forall>i<M. c i = S (i * 4) * exp (\<i> * xi i * complex_of_real phi_a)
                       \<and> c (M + i) = S (i * 4 + 2) * exp (\<i> * xi i * complex_of_real phi_b))"
    using assms(2,3) by (simp add: assemble_contspec_def ab_loop_eq)
next
  obtain rc c where rl: "reflection_loop M xi S (- 2 * (snd T + eps_t * boundary_coeff)) contspec
                           = (rc, c)"
    by (cases "reflection_loop M xi S (- 2 * (snd T + eps_t * boundary_coeff)) contspec")
  have "fst (reflection_loop M xi S (- 2 * (snd T + eps_t * boundary_coeff)) contspec)
          = (if \<exists>i<M. S (i * 4) = 0 then E_DIV_BY_ZERO else SUCCESS)"
    by (rule reflection_loop_status)
  then have rc: "rc = (if \<exists>i<M. S (i * 4) = 0 then E_DIV_BY_ZERO else SUCCESS)"
    by (simp only: rl fst_conv)
  have "fst (assemble_contspec nsev_cstype_BOTH M xi S T eps_t boundary_coeff contspec) = rc"
    unfolding assemble_contspec_def Let_def by (simp only: rl nsev_cstype.case) simp
  then show "fst (assemble_contspec nsev_cstype_BOTH M xi S T eps_t boundary_coeff contspec)
            = E_DIV_BY_ZERO \<longleftrightarrow> (\<exists>i<M. S (i * 4) = 0)"
    by (simp add: rc)
next
  assume "\<forall>i<M. S (i * 4) \<noteq> 0"
  then show "\<exists>c. assemble_contspec nsev_cstype_BOTH M xi S T eps_t boundary_coeff contspec
                   = (SUCCESS, c)
                \<and> (\<forall>i<M. c i = S (i * 4 + 2) * exp (\<i> * xi i * complex_of_real phi_rho)
                                  / S (i * 4)
                         \<and> c (M + i) = S (i * 4) * exp (\<i> * xi i * complex_of_real phi_a)
                         \<and> c (2 * M + i)
                             = S (i * 4 + 2) * exp (\<i> * xi i * complex_of_real phi_b))"
    using assms by (simp add: assemble_contspec_def reflection_loop_ok ab_loop_eq)
qed

theorem contspec_assembler_witness:
  "fst (assemble_contspec nsev_cstype_REFLECTION_COEFFICIENT 1 (\<lambda>i. 1)
          (\<lambda>k. if k = 0 then 2 else 1) (0, 1) 1 (1 / 2) (\<lambda>k. 0)) \<noteq> E_DIV_BY_ZERO
   \<and> (\<exists>c. assemble_contspec nsev_cstype_REFLECTION_COEFFICIENT 1 (\<lambda>i. 1)
             (\<lambda>k. if k = 0 then 2 else 1) (0, 1) 1 (1 / 2) (\<lambda>k. 0) = (SUCCESS, c)
          \<and> c 0 = exp (\<i> * complex_of_real (- 3)) / 2)
   \<and> (\<exists>c. assemble_contspec nsev_cstype_AB 1 (\<lambda>i. 1)
             (\<lambda>k. if k = 0 then 2 else 1) (0, 1) 1 (1 / 2) (\<lambda>k. 0) = (SUCCESS, c)
          \<and> c 0 = 2 * exp (\<i> * complex_of_real 2) \<and> c 1 = exp (\<i> * complex_of_real (- 1)))
   \<and> fst (assemble_contspec nsev_cstype_BOTH 1 (\<lambda>i. 1)
          (\<lambda>k. if k = 0 then 2 else 1) (0, 1) 1 (1 / 2) (\<lambda>k. 0)) \<noteq> E_DIV_BY_ZERO
   \<and> (\<exists>c. assemble_contspec nsev_cstype_BOTH 1 (\<lambda>i. 1)
             (\<lambda>k. if k = 0 then 2 else 1) (0, 1) 1 (1 / 2) (\<lambda>k. 0) = (SUCCESS, c)
          \<and> c 0 = exp (\<i> * complex_of_real (- 3)) / 2
          \<and> c 1 = 2 * exp (\<i> * complex_of_real 2)
          \<and> c 2 = exp (\<i> * complex_of_real (- 1)))"
  using contspec_assembler[of "- 3" "(0, 1)" 1 "1 / 2" 2 "- 1" 1 "\<lambda>i. 1"
      "\<lambda>k. if k = 0 then 2 else 1" "\<lambda>k. 0"]
  by simp

section \<open>Richardson extrapolation of the continuous spectrum\<close>

lemma stride_loop:
  assumes M: "0 < M"
  shows "for_loop (a * M) L M (\<lambda>j c. c(i + j := g (i + j) (c (i + j)))) (c0 :: nat \<Rightarrow> 'a)
       = (\<lambda>k. if \<exists>b\<ge>a. k = i + b * M \<and> b * M < L then g k (c0 k) else c0 k)"
proof (induction "L - a * M" arbitrary: a c0 rule: less_induct)
  case less
  let ?body = "\<lambda>j c. c(i + j := g (i + j) (c (i + j)))"
  show ?case
  proof (cases "a * M < L")
    case False
    then have "\<And>k. \<not> (\<exists>b\<ge>a. k = i + b * M \<and> b * M < L)"
      by (metis leD le_trans mult_le_mono1 not_le_imp_less)
    then have "(\<lambda>k. if \<exists>b\<ge>a. k = i + b * M \<and> b * M < L then g k (c0 k) else c0 k) = c0"
      by (auto simp: fun_eq_iff)
    then show ?thesis using False by (subst for_loop.simps) simp
  next
    case True
    let ?c1 = "c0(i + a * M := g (i + a * M) (c0 (i + a * M)))"
    have dec: "L - Suc a * M < L - a * M" using True M by simp
    have IH: "for_loop (Suc a * M) L M ?body ?c1
          = (\<lambda>k. if \<exists>b\<ge>Suc a. k = i + b * M \<and> b * M < L then g k (?c1 k) else ?c1 k)"
      by (rule less[OF dec])
    have unf: "for_loop (a * M) L M ?body c0 = for_loop (Suc a * M) L M ?body ?c1"
      using True M by (subst for_loop.simps) (simp add: add.commute)
    show ?thesis
    proof
      fix k
      have r: "for_loop (a * M) L M ?body c0 k
          = (if \<exists>b\<ge>Suc a. k = i + b * M \<and> b * M < L then g k (?c1 k) else ?c1 k)"
        by (simp only: unf IH)
      show "for_loop (a * M) L M ?body c0 k
          = (if \<exists>b\<ge>a. k = i + b * M \<and> b * M < L then g k (c0 k) else c0 k)"
      proof (cases "k = i + a * M")
        case k: True
        have n: "\<not> (\<exists>b\<ge>Suc a. k = i + b * M \<and> b * M < L)"
          using k M by auto
        have y: "\<exists>b\<ge>a. k = i + b * M \<and> b * M < L" using k True by auto
        have "?c1 k = g k (c0 k)" using k by simp
        then show ?thesis using r n y by (simp only: if_True if_False)
      next
        case k: False
        have e: "(\<exists>b\<ge>Suc a. k = i + b * M \<and> b * M < L) = (\<exists>b\<ge>a. k = i + b * M \<and> b * M < L)"
          using k by (metis Suc_leD Suc_leI le_neq_implies_less)
        have "?c1 k = c0 k" using k by simp
        then show ?thesis using r e by (simp only:)
      qed
    qed
  qed
qed

lemma block_index:
  fixes M i k L :: nat
  assumes "0 < M" "i < M"
  shows "(\<exists>b\<ge>0. k = i + b * M \<and> b * M < L) = (k mod M = i \<and> k div M * M < L)"
proof
  assume "\<exists>b\<ge>0. k = i + b * M \<and> b * M < L"
  then obtain b where b: "k = i + b * M" "b * M < L" by blast
  have "k mod M = i" using b(1) assms by (simp add: mod_mult_self2)
  moreover have "k div M = b" using b(1) assms by (simp add: div_mult_self2)
  ultimately show "k mod M = i \<and> k div M * M < L" using b(2) by simp
next
  assume a: "k mod M = i \<and> k div M * M < L"
  have "k = i + (k div M) * M" using a by (metis add.commute div_mult_mod_eq)
  then show "\<exists>b\<ge>0. k = i + b * M \<and> b * M < L" using a by blast
qed

lemma richardson_contspec_eq:
  assumes M: "0 < M"
  shows "richardson_contspec M contspec_len XI eps_t_sub scl_num scl_den contspec_sub contspec
       = (\<lambda>k. if k div M * M < contspec_len \<and> in_nyquist_band XI M eps_t_sub (k mod M)
              then (complex_of_real scl_num * contspec k - contspec_sub k) / complex_of_real scl_den
              else contspec k)"
proof -
  let ?g = "\<lambda>k x. (complex_of_real scl_num * x - contspec_sub k) / complex_of_real scl_den"
  let ?inner = "\<lambda>i c. for_loop 0 contspec_len M (\<lambda>j c. c(i + j := ?g (i + j) (c (i + j)))) c"
  let ?body = "\<lambda>i c. if in_nyquist_band XI M eps_t_sub i then ?inner i c else c"
  have inner: "?inner i c = (\<lambda>k. if k mod M = i \<and> k div M * M < contspec_len then ?g k (c k) else c k)"
    if "i < M" for i and c :: carray
    using stride_loop[OF M, of 0 contspec_len i ?g c] block_index[OF M that, of _ contspec_len]
    by simp
  let ?P = "\<lambda>j (c :: carray). j \<le> M \<and>
      c = (\<lambda>k. if k mod M < j \<and> k div M * M < contspec_len \<and> in_nyquist_band XI M eps_t_sub (k mod M)
               then ?g k (contspec k) else contspec k)"
  have "?P M (for_loop 0 M 1 ?body contspec)"
  proof (rule for_loop_rule[where P = "?P"])
    show "?P 0 contspec" by simp
    show "0 \<le> M" by simp
    show "?P (Suc j) (?body j t)" if "0 \<le> j" and jM: "j < M" and inv: "?P j t" for j t
    proof -
      have t: "t k = (if k mod M < j \<and> k div M * M < contspec_len
                         \<and> in_nyquist_band XI M eps_t_sub (k mod M)
                      then ?g k (contspec k) else contspec k)" for k
        using inv by simp
      have step: "?body j t k =
                    (if in_nyquist_band XI M eps_t_sub j \<and> k mod M = j
                        \<and> k div M * M < contspec_len
                     then ?g k (t k) else t k)" for k
        using inner[OF jM, of t] by (simp add: fun_eq_iff)
      have "?body j t k =
              (if k mod M < Suc j \<and> k div M * M < contspec_len
                  \<and> in_nyquist_band XI M eps_t_sub (k mod M)
               then ?g k (contspec k) else contspec k)" for k
        unfolding step t by (auto simp: less_Suc_eq)
      then show ?thesis using jM by (simp add: fun_eq_iff)
    qed
  qed
  then show ?thesis using M by (simp add: richardson_contspec_def)
qed

lemma richardson_discspec_contspec:
  "out_contspec (snd (richardson_discspec eps_t scl_num scl_den K K_sub ds_type_opt reserve_fresh
                        bound_states_sub nc_sub bs bufs)) = out_contspec bufs"
  unfolding richardson_discspec_def Let_def
  by (simp split: prod.split option.split)

lemma richardson_sub_buffers_len:
  assumes "richardson_sub_buffers env M kappa opts bufs = Inr (contspec_len, sub_bufs)"
    and "out_contspec bufs \<noteq> None" and "0 < M"
  shows "contspec_len = (case contspec_type opts of
                           nsev_cstype_BOTH \<Rightarrow> 3 * M
                         | nsev_cstype_REFLECTION_COEFFICIENT \<Rightarrow> M
                         | nsev_cstype_AB \<Rightarrow> 2 * M
                         | nsev_cstype_OTHER \<Rightarrow> 0)"
  using assms unfolding richardson_sub_buffers_def
  by (cases "contspec_type opts")
     (auto split: option.splits if_splits sum.splits prod.splits)

text \<open>
  Claim C4. In the Richardson branch, after the sub-run on the resampled signal \<open>sig\<close> has
  succeeded: with \<open>s = (D / Dsub)\<^sup>o\<^sup>r\<^sup>d\<^sup>e\<^sup>r\<close>, \<open>Dsub\<close> the sample count of the sub-run and \<open>order\<close> the
  scheme's convergence order, every entry \<open>i + blk M\<close> of the continuous spectrum (grid
  point \<open>i\<close>, block \<open>blk\<close> of the one, two or three blocks of length \<open>M\<close>) ends as
  \<open>(s value_full - value_sub) / (s - 1)\<close> when \<open>|xi\<^sub>i| < 0.9 \<pi> / (2 eps_t_sub)\<close>, and as the
  full-run value otherwise. (For \<open>M = 1\<close> the grid step is a quotient by zero and the grid
  point is not a number: the entry keeps the full-run value.)
\<close>

theorem richardson_contspec_value:
  fixes order :: nat
  assumes sub: "richardson_sub_buffers env M kappa opts bufs = Inr (contspec_len, sub_bufs)"
    and order: "nse_discretization_method_order env (discretization opts) = order" "order \<noteq> 0"
    and sig: "signal_effective_from_signal env D (Some q) eps_t kappa (D div 2)
                (discretization opts) = Inr sig"
    and Tsub: "Tsub = (fst T + real (first_index sig) * eps_t,
                       fst T + real (last_index sig) * eps_t)"
    and eps_sub: "eps_t_sub = (snd Tsub - fst Tsub) / real (Dsub sig - 1)"
    and subrun: "fnft_nsev_slow_base env (Dsub sig * D_scale) (Some (q_effective sig))
                   (r_effective sig) (Some Tsub) M (Some XI) kappa
                   (Some (opts\<lparr>bound_state_localization := nsev_bsloc_NEWTON\<rparr>)) sub_bufs
                 = (SUCCESS, sub_bufs')"
    and full: "out_contspec bufs = Some value_full"
    and subv: "out_contspec sub_bufs' = Some value_sub"
    and M: "0 < M" and i: "i < M" and blk: "blk * M < contspec_len"
    and s: "s = (real D / real (Dsub sig)) ^ order"
  shows "\<exists>rc bufs' c.
           richardson env D q T eps_t D_scale M (Some XI) kappa opts ds_type_opt reserve_fresh bufs
             = (rc, bufs')
           \<and> out_contspec bufs' = Some c
           \<and> c (i + blk * M) =
               (if M \<noteq> 1 \<and> \<bar>fst XI + (snd XI - fst XI) / real (M - 1) * real i\<bar>
                               < 9 / 10 * pi / (2 * eps_t_sub)
                then (complex_of_real s * value_full (i + blk * M) - value_sub (i + blk * M))
                       / complex_of_real (s - 1)
                else value_full (i + blk * M))
           \<and> contspec_len = (case contspec_type opts of
                               nsev_cstype_BOTH \<Rightarrow> 3 * M
                             | nsev_cstype_REFLECTION_COEFFICIENT \<Rightarrow> M
                             | nsev_cstype_AB \<Rightarrow> 2 * M
                             | nsev_cstype_OTHER \<Rightarrow> 0)"
proof -
  define c where "c = richardson_contspec M contspec_len XI eps_t_sub s (s - 1) value_sub value_full"
  have len: "contspec_len = (case contspec_type opts of
                               nsev_cstype_BOTH \<Rightarrow> 3 * M
                             | nsev_cstype_REFLECTION_COEFFICIENT \<Rightarrow> M
                             | nsev_cstype_AB \<Rightarrow> 2 * M
                             | nsev_cstype_OTHER \<Rightarrow> 0)"
    using richardson_sub_buffers_len[OF sub _ M] full by simp
  have idx: "(i + blk * M) div M * M < contspec_len" "(i + blk * M) mod M = i"
    using i blk M by simp_all
  have val: "c (i + blk * M) =
               (if M \<noteq> 1 \<and> \<bar>fst XI + (snd XI - fst XI) / real (M - 1) * real i\<bar>
                               < 9 / 10 * pi / (2 * eps_t_sub)
                then (complex_of_real s * value_full (i + blk * M) - value_sub (i + blk * M))
                       / complex_of_real (s - 1)
                else value_full (i + blk * M))"
    unfolding c_def richardson_contspec_eq[OF M] using idx
    by (simp add: in_nyquist_band_def)
  have "\<exists>rc bufs'. richardson env D q T eps_t D_scale M (Some XI) kappa opts ds_type_opt
                      reserve_fresh bufs = (rc, bufs')
                  \<and> out_contspec bufs' = Some c"
  proof -
    have "out_contspec (snd (richardson env D q T eps_t D_scale M (Some XI) kappa opts ds_type_opt
                               reserve_fresh bufs)) = Some c"
      unfolding richardson_def c_def
      using sub order sig subrun full subv M
      by (simp add: Let_def Tsub eps_sub s richardson_discspec_contspec
               split: option.split)
    then show ?thesis by (metis prod.collapse)
  qed
  then show ?thesis using val len by blast
qed

theorem richardson_contspec_value_witness:
  "\<exists>rc bufs' c.
     richardson richardson_env 4 (\<lambda>k. 1) (0, 1) (1 / 3) 1 2 (Some (0, 1)) (- 1)
       (default_opts\<lparr>richardson_extrapolation_flag := 1\<rparr>) nsev_dstype_NORMING_CONSTANTS None
       \<lparr>out_contspec = Some (\<lambda>k. 4), out_K = Some 0, out_bound_states = None,
        out_normconsts_or_residues = None\<rparr> = (rc, bufs')
     \<and> out_contspec bufs' = Some c \<and> c 0 = 6"
proof -
  define opts where "opts = default_opts\<lparr>richardson_extrapolation_flag := 1\<rparr>"
  define bufs where "bufs = \<lparr>out_contspec = Some (\<lambda>k. 4), out_K = Some 0,
        out_bound_states = None, out_normconsts_or_residues = None\<rparr>"
  define sub_bufs where "sub_bufs = \<lparr>out_contspec = Some (\<lambda>k. 0), out_K = Some 0,
        out_bound_states = None, out_normconsts_or_residues = None\<rparr>"
  define sig where "sig = projr (signal_effective_from_signal richardson_env 4 (Some (\<lambda>k. 1))
                (1 / 3) (- 1) (4 div 2) (discretization opts))"
  define Tsub where "Tsub = (fst (0 :: real, 1 :: real) + real (first_index sig) * (1 / 3),
               fst (0 :: real, 1 :: real) + real (last_index sig) * (1 / 3))"
  define subrun where "subrun = fnft_nsev_slow_base richardson_env (Dsub sig * 1)
                   (Some (q_effective sig)) (r_effective sig) (Some Tsub) 2 (Some (0, 1)) (- 1)
                   (Some (opts\<lparr>bound_state_localization := nsev_bsloc_NEWTON\<rparr>)) sub_bufs"
  define value_sub where "value_sub = the (out_contspec (snd subrun))"
  have sub: "richardson_sub_buffers richardson_env 2 (- 1) opts bufs = Inr (2, sub_bufs)"
    by (simp add: richardson_sub_buffers_def default_opts_def richardson_env_def example_env_def
          opts_def bufs_def sub_bufs_def)
  have order: "nse_discretization_method_order richardson_env (discretization opts) = 1"
    by (simp add: default_opts_def richardson_env_def example_env_def opts_def)
  have sig: "signal_effective_from_signal richardson_env 4 (Some (\<lambda>k. 1)) (1 / 3) (- 1)
                (4 div 2) (discretization opts) = Inr sig"
    by (simp add: run_defs richardson_env_def opts_def sig_def)
  have sg: "Dsub sig = 2" "last_index sig = 2" "first_index sig = 0"
    by (simp_all add: run_defs richardson_env_def opts_def sig_def)
  have subrun: "fnft_nsev_slow_base richardson_env (Dsub sig * 1)
                   (Some (q_effective sig)) (r_effective sig) (Some Tsub) 2 (Some (0, 1)) (- 1)
                   (Some (opts\<lparr>bound_state_localization := nsev_bsloc_NEWTON\<rparr>)) sub_bufs
                = (SUCCESS, snd subrun)"
  proof -
    have "fst subrun = SUCCESS"
      by (simp add: run_defs richardson_defs richardson_env_def Let_def
            subrun_def Tsub_def sig_def opts_def sub_bufs_def)
    then show ?thesis unfolding subrun_def by (metis prod.collapse)
  qed
  have subv: "out_contspec (snd subrun) = Some value_sub" "value_sub 0 = 2"
    by (simp_all add: run_defs richardson_defs richardson_env_def Let_def
          subrun_def Tsub_def sig_def opts_def sub_bufs_def value_sub_def)
  have full: "out_contspec bufs = Some (\<lambda>k. 4)" by (simp add: bufs_def)
  have band: "\<bar>fst (0 :: real, 1 :: real) + (snd (0 :: real, 1 :: real) - fst (0 :: real, 1 :: real))
                / real (2 - 1) * real (0 :: nat)\<bar>
              < 9 / 10 * pi / (2 * ((snd Tsub - fst Tsub) / real (Dsub sig - 1)))"
    using pi_gt_zero by (simp add: sg Tsub_def)
  have s: "(real 4 / real (Dsub sig)) ^ 1 = 2" by (simp add: sg)
  have "\<exists>rc bufs' c.
          richardson richardson_env 4 (\<lambda>k. 1) (0, 1) (1 / 3) 1 2 (Some (0, 1)) (- 1) opts
            nsev_dstype_NORMING_CONSTANTS None bufs = (rc, bufs')
          \<and> out_contspec bufs' = Some c
          \<and> c (0 + 0 * 2) =
              (if (2 :: nat) \<noteq> 1 \<and> \<bar>fst (0 :: real, 1 :: real)
                      + (snd (0 :: real, 1 :: real) - fst (0 :: real, 1 :: real)) / real (2 - 1)
                        * real (0 :: nat)\<bar>
                    < 9 / 10 * pi / (2 * ((snd Tsub - fst Tsub) / real (Dsub sig - 1)))
               then (complex_of_real ((real 4 / real (Dsub sig)) ^ 1) * (\<lambda>k. 4) (0 + 0 * 2)
                       - value_sub (0 + 0 * 2))
                      / complex_of_real ((real 4 / real (Dsub sig)) ^ 1 - 1)
               else (\<lambda>k. 4) (0 + 0 * 2))
          \<and> (2 :: nat) = (case contspec_type opts of
                     nsev_cstype_BOTH \<Rightarrow> 3 * 2
                   | nsev_cstype_REFLECTION_COEFFICIENT \<Rightarrow> 2
                   | nsev_cstype_AB \<Rightarrow> 2 * 2
                   | nsev_cstype_OTHER \<Rightarrow> 0)"
    by (rule richardson_contspec_value[where sub_bufs = sub_bufs and order = 1 and sig = sig
          and Tsub = Tsub and sub_bufs' = "snd subrun"])
       (fact sub, fact order, simp, fact sig, fact Tsub_def, rule refl, fact subrun, fact full,
        fact subv(1), simp, simp, simp, rule refl)
  then obtain rc bufs' c where r:
    "richardson richardson_env 4 (\<lambda>k. 1) (0, 1) (1 / 3) 1 2 (Some (0, 1)) (- 1) opts
       nsev_dstype_NORMING_CONSTANTS None bufs = (rc, bufs')"
    "out_contspec bufs' = Some c"
    "c (0 + 0 * 2) =
       (if (2 :: nat) \<noteq> 1 \<and> \<bar>fst (0 :: real, 1 :: real)
               + (snd (0 :: real, 1 :: real) - fst (0 :: real, 1 :: real)) / real (2 - 1)
                 * real (0 :: nat)\<bar>
             < 9 / 10 * pi / (2 * ((snd Tsub - fst Tsub) / real (Dsub sig - 1)))
        then (complex_of_real ((real 4 / real (Dsub sig)) ^ 1) * (\<lambda>k. 4) (0 + 0 * 2)
                - value_sub (0 + 0 * 2))
               / complex_of_real ((real 4 / real (Dsub sig)) ^ 1 - 1)
        else (\<lambda>k. 4) (0 + 0 * 2))"
    by blast
  have cond: "(2 :: nat) \<noteq> 1 \<and> \<bar>fst (0 :: real, 1 :: real)
               + (snd (0 :: real, 1 :: real) - fst (0 :: real, 1 :: real)) / real (2 - 1)
                 * real (0 :: nat)\<bar>
             < 9 / 10 * pi / (2 * ((snd Tsub - fst Tsub) / real (Dsub sig - 1)))"
    by (rule conjI) (simp, rule band)
  have "c 0 = 6" using r(3)[unfolded if_P[OF cond] s] subv(2) by simp
  then show ?thesis using r(1,2) unfolding opts_def bufs_def by blast
qed

section \<open>Residues from norming constants\<close>

lemma for_loop_pointwise_offset:
  "for_loop 0 n 1 (\<lambda>i c. c(off + i := g i (c (off + i)))) (c0 :: nat \<Rightarrow> 'a) =
     (\<lambda>k. if off \<le> k \<and> k < off + n then g (k - off) (c0 k) else c0 k)"
proof -
  let ?P = "\<lambda>j (c :: nat \<Rightarrow> 'a).
              c = (\<lambda>k. if off \<le> k \<and> k < off + j then g (k - off) (c0 k) else c0 k)"
  have "?P n (for_loop 0 n 1 (\<lambda>i c. c(off + i := g i (c (off + i)))) c0)"
  proof (rule for_loop_rule[where P = "?P"])
    show "?P 0 c0" by (auto simp: fun_eq_iff)
    show "0 \<le> n" by simp
    show "?P (Suc j) (t(off + j := g j (t (off + j))))" if "?P j t" for j t
      using that by (auto simp: fun_eq_iff)
  qed
  then show ?thesis .
qed

lemma store_entries: "store a (entries b K) = (\<lambda>k. if k < K then b k else a k)"
  by (simp add: store_def entries_def fun_eq_iff)

lemma residue_loop_status:
  "fst (for_loop_rc 0 K
          (\<lambda>i nc. if aprime i = 0 then (E_DIV_BY_ZERO, nc)
                   else (SUCCESS, nc(off + i := nc (off + i) / aprime i))) (nc0 :: carray))
   = (if \<exists>i<K. aprime i = 0 then E_DIV_BY_ZERO else SUCCESS)"
proof -
  have "fst (for_loop_rc 0 K
          (\<lambda>i nc. if aprime i = 0 then (E_DIV_BY_ZERO, nc)
                   else (SUCCESS, nc(off + i := nc (off + i) / aprime i))) nc0)
      = (if \<exists>j. 0 \<le> j \<and> j < K \<and> aprime j = 0 then E_DIV_BY_ZERO else SUCCESS)"
    by (rule for_loop_rc_status) auto
  then show ?thesis by simp
qed

lemma residue_loop_ok:
  assumes "\<forall>i<K. aprime i \<noteq> 0"
  shows "for_loop_rc 0 K
          (\<lambda>i nc. if aprime i = 0 then (E_DIV_BY_ZERO, nc)
                   else (SUCCESS, nc(off + i := nc (off + i) / aprime i))) (nc0 :: carray)
   = (SUCCESS, \<lambda>k. if off \<le> k \<and> k < off + K then nc0 k / aprime (k - off) else nc0 k)"
proof -
  have "for_loop_rc 0 K
          (\<lambda>i nc. if aprime i = 0 then (E_DIV_BY_ZERO, nc)
                   else (SUCCESS, nc(off + i := nc (off + i) / aprime i))) nc0
      = (SUCCESS, for_loop 0 K 1 (\<lambda>i nc. nc(off + i := nc (off + i) / aprime i)) nc0)"
    using assms by (intro for_loop_rc_all_success) simp
  also have "for_loop 0 K 1 (\<lambda>i nc. nc(off + i := nc (off + i) / aprime i)) nc0
      = (\<lambda>k. if off \<le> k \<and> k < off + K then nc0 k / aprime (k - off) else nc0 k)"
    using for_loop_pointwise_offset[of K off "\<lambda>i x. x / aprime i" nc0] .
  finally show ?thesis .
qed

text \<open>
  Claim C5. With the scatter engine's norming constants \<open>b\<close> and derivatives \<open>a'\<close> at the \<open>K\<close>
  bound states handed in: when residues are requested, alone or with the norming constants,
  an exact zero among the \<open>a'\<close> makes the call fail with \<open>E_DIV_BY_ZERO\<close>; otherwise each
  residue written is \<open>b i / a' i\<close>, in entries \<open>0 .. K-1\<close> for the kind \<open>RESIDUES\<close>, and for the
  kind \<open>BOTH\<close> in entries \<open>K .. 2K-1\<close> behind the \<open>K\<close> norming constants.
\<close>

theorem residues_from_normconsts:
  assumes K: "K \<noteq> 0" and D: "D \<noteq> 0"
    and mem: "malloc env ''a_vals'' \<noteq> None" "malloc env ''aprime_vals'' \<noteq> None"
    and scat: "nse_scatter_bound_states env D (entries q D) (entries r D) T
                 (entries bound_states K) (discretization opts) 0
               = (SUCCESS, a_vals, aprime_vals, b)"
    and kind: "discspec_type opts = nsev_dstype_RESIDUES \<or> discspec_type opts = nsev_dstype_BOTH"
  shows "((\<exists>i<K. aprime_vals i = 0) \<longrightarrow>
            fst (compute_normconsts_or_residues env D (Some q) r T K bound_states
                   normconsts_or_residues opts) = E_DIV_BY_ZERO)
       \<and> ((\<forall>i<K. aprime_vals i \<noteq> 0) \<longrightarrow>
            (\<exists>nc. compute_normconsts_or_residues env D (Some q) r T K bound_states
                     normconsts_or_residues opts = (SUCCESS, nc)
                 \<and> (discspec_type opts = nsev_dstype_RESIDUES \<longrightarrow>
                      (\<forall>i<K. nc i = b i / aprime_vals i))
                 \<and> (discspec_type opts = nsev_dstype_BOTH \<longrightarrow>
                      (\<forall>i<K. nc i = b i \<and> nc (K + i) = b i / aprime_vals i))))"
proof -
  obtain m1 m2 where m: "malloc env ''a_vals'' = Some m1" "malloc env ''aprime_vals'' = Some m2"
    using mem by auto
  define nc0 where "nc0 = store normconsts_or_residues (entries b K)"
  have nc0: "\<And>k. k < K \<Longrightarrow> nc0 k = b k" by (simp add: nc0_def store_entries)
  from kind show ?thesis
  proof
    assume res: "discspec_type opts = nsev_dstype_RESIDUES"
    have eq: "compute_normconsts_or_residues env D (Some q) r T K bound_states
                normconsts_or_residues opts
            = for_loop_rc 0 K
                (\<lambda>i nc. if aprime_vals i = 0 then (E_DIV_BY_ZERO, nc)
                         else (SUCCESS, nc(0 + i := nc (0 + i) / aprime_vals i))) nc0"
      using K D m scat res unfolding compute_normconsts_or_residues_def nc0_def Let_def
      by simp
    show ?thesis
      unfolding eq using res nc0
      by (auto simp: residue_loop_status residue_loop_ok)
  next
    assume both: "discspec_type opts = nsev_dstype_BOTH"
    have eq: "compute_normconsts_or_residues env D (Some q) r T K bound_states
                normconsts_or_residues opts
            = for_loop_rc 0 K
                (\<lambda>i nc. if aprime_vals i = 0 then (E_DIV_BY_ZERO, nc)
                         else (SUCCESS, nc(K + i := nc (K + i) / aprime_vals i)))
                (memcpy_within nc0 K 0 K)"
      using K D m scat both unfolding compute_normconsts_or_residues_def nc0_def Let_def
      by simp
    show ?thesis
      unfolding eq using both nc0
      by (auto simp: residue_loop_status residue_loop_ok memcpy_within_def)
  qed
qed

theorem residues_from_normconsts_witness:
  "\<exists>nc. compute_normconsts_or_residues example_env 2 (Some (\<lambda>k. 1)) (\<lambda>k. - 1) (0, 1) 1
           (\<lambda>k. \<i>) (\<lambda>k. 0) (default_opts\<lparr>discspec_type := nsev_dstype_BOTH\<rparr>) = (SUCCESS, nc)
        \<and> nc 0 = 1 \<and> nc 1 = 1"
proof -
  have m: "malloc example_env ''a_vals'' \<noteq> None" "malloc example_env ''aprime_vals'' \<noteq> None"
    by (simp_all add: example_env_def)
  have s: "nse_scatter_bound_states example_env 2 (entries (\<lambda>k. 1) 2) (entries (\<lambda>k. - 1) 2) (0, 1)
             (entries (\<lambda>k. \<i>) 1)
             (discretization (default_opts\<lparr>discspec_type := nsev_dstype_BOTH\<rparr>)) 0
           = (SUCCESS, \<lambda>k. 0, \<lambda>k. 1, \<lambda>k. 1)"
    by (simp add: example_env_def entries_def)
  have k: "discspec_type (default_opts\<lparr>discspec_type := nsev_dstype_BOTH\<rparr>) = nsev_dstype_RESIDUES
         \<or> discspec_type (default_opts\<lparr>discspec_type := nsev_dstype_BOTH\<rparr>) = nsev_dstype_BOTH"
    by simp
  from residues_from_normconsts[OF _ _ m s k, of "\<lambda>k. 0"]
  show ?thesis by simp
qed

section \<open>The resampler on the direct scheme\<close>

text \<open>
  Claim C6. For a signal of \<open>D \<ge> 2\<close> samples (positive step, sign \<open>\<plusminus>1\<close>, allocations
  succeeding) the resampler clamps the wanted count to \<open>[2, D]\<close>, takes the stride
  \<open>nskip = round(D / Dsub)\<close>, returns the count \<open>round(D / nskip)\<close>, and on the direct (BO)
  scheme its effective signal is every \<open>nskip\<close>-th original sample, with
  \<open>r_eff i = - kappa conj(q_eff i)\<close> at every index. The stride is at least one and each of the
  \<open>round(D / nskip)\<close> samples is read inside the signal.
\<close>

theorem signal_effective_BO:
  fixes d_scale :: nat
  assumes D: "2 \<le> D" and eps: "0 < eps_t" and kap: "\<bar>kappa\<bar> = 1"
    and scale: "nse_discretization_D_scale env nse_discretization_BO = d_scale" "d_scale \<noteq> 0"
    and mem: "malloc env ''q_effective'' \<noteq> None" "malloc env ''r_effective'' \<noteq> None"
    and clamp: "Dsub_clamped = min D (max 2 Dsub_wanted)"
    and nskip: "nskip = nat (ROUND (real D / real Dsub_clamped))"
    and actual: "Dsub_actual = nat (ROUND (real D / real nskip))"
  shows "\<exists>sig. signal_effective_from_signal env D (Some q) eps_t kappa Dsub_wanted
                  nse_discretization_BO = Inr sig
           \<and> Dsub sig = Dsub_actual
           \<and> 1 \<le> nskip
           \<and> (\<forall>i < Dsub_actual. i * nskip < D)
           \<and> (\<forall>i < Dsub_actual * d_scale.
                 q_effective sig i = q (i * nskip)
                 \<and> r_effective sig i = of_int (- kappa) * cnj (q_effective sig i))"
proof -
  have n1: "1 \<le> nskip"
    unfolding nskip by (rule nskip_positive) (use D clamp in auto)
  have last: "(Dsub_actual - 1) * nskip < D"
    unfolding actual by (rule last_sample_in_range[OF n1]) (use D in simp)
  have inside: "i * nskip < D" if "i < Dsub_actual" for i
  proof -
    have "i \<le> Dsub_actual - 1" using that by simp
    then have "i * nskip \<le> (Dsub_actual - 1) * nskip" by (rule mult_le_mono1)
    then show ?thesis using last by (rule le_less_trans)
  qed
  have c: "(if (if Dsub_wanted < 2 then 2 else Dsub_wanted) > D then D
            else (if Dsub_wanted < 2 then 2 else Dsub_wanted)) = Dsub_clamped"
    using clamp by auto
  obtain qe0 re0 where m: "malloc env ''q_effective'' = Some qe0" "malloc env ''r_effective'' = Some re0"
    using mem by auto
  have run: "\<exists>sig. signal_effective_from_signal env D (Some q) eps_t kappa Dsub_wanted
                  nse_discretization_BO = Inr sig
           \<and> Dsub sig = Dsub_actual
           \<and> (\<forall>i < Dsub_actual * d_scale.
                 q_effective sig i = q (i * nskip)
                 \<and> r_effective sig i = of_int (- kappa) * cnj (q_effective sig i))"
    using D eps kap scale m
    unfolding signal_effective_from_signal_def resample_switch_def Let_def c nskip[symmetric] actual[symmetric]
    by (simp add: resample_BO_eq)
  with n1 inside show ?thesis by blast
qed

theorem signal_effective_BO_witness:
  "\<exists>sig. signal_effective_from_signal example_env 7 (Some (\<lambda>k. of_nat k)) 1 1 3
            nse_discretization_BO = Inr sig
         \<and> Dsub sig = 4 \<and> q_effective sig 3 = 6 \<and> r_effective sig 3 = - 6"
proof -
  have "\<exists>sig. signal_effective_from_signal example_env 7 (Some (\<lambda>k. of_nat k)) 1 1 3
                  nse_discretization_BO = Inr sig
           \<and> Dsub sig = 4
           \<and> 1 \<le> (2 :: nat)
           \<and> (\<forall>i < 4. i * 2 < (7 :: nat))
           \<and> (\<forall>i < 4 * 1.
                 q_effective sig i = (\<lambda>k. of_nat k) (i * 2)
                 \<and> r_effective sig i = of_int (- 1) * cnj (q_effective sig i))"
    by (rule signal_effective_BO[where Dsub_clamped = 3 and nskip = 2])
       (simp_all add: example_env_def ROUND_def)
  then obtain sig where s: "signal_effective_from_signal example_env 7 (Some (\<lambda>k. of_nat k)) 1 1 3
                  nse_discretization_BO = Inr sig" "Dsub sig = 4"
     "\<forall>i < 4 * 1. q_effective sig i = (\<lambda>k. of_nat k) (i * 2)
                 \<and> r_effective sig i = of_int (- 1) * cnj (q_effective sig i)"
    by blast
  from s(3) have "q_effective sig 3 = 6 \<and> r_effective sig 3 = - 6"
    by (auto dest!: spec[where x = 3])
  with s(1,2) show ?thesis by blast
qed

section \<open>Input checks of the entry point\<close>

text \<open>
  Claim C7. A call of \<^verbatim>\<open>fnft_nsev_slow\<close> with \<open>D < 2\<close>, or \<open>q\<close> null, or \<open>T\<close> null or
  \<open>T\<^sub>0 \<ge> T\<^sub>1\<close>, or a continuous spectrum requested with \<open>XI\<close> null or \<open>XI\<^sub>0 \<ge> XI\<^sub>1\<close>, or
  \<open>|kappa| \<noteq> 1\<close>, or bound states requested with \<^verbatim>\<open>K_ptr\<close> null, returns
  \<open>E_INVALID_ARGUMENT\<close> and leaves the output memory as it found it.
\<close>

theorem fnft_nsev_slow_invalid_argument:
  assumes "D < 2 \<or> q_ptr = None \<or> T_ptr = None \<or> (\<exists>T. T_ptr = Some T \<and> fst T \<ge> snd T)
           \<or> (out_contspec bufs \<noteq> None \<and> (XI_ptr = None \<or> (\<exists>XI. XI_ptr = Some XI \<and> fst XI \<ge> snd XI)))
           \<or> \<bar>kappa\<bar> \<noteq> 1
           \<or> (out_bound_states bufs \<noteq> None \<and> out_K bufs = None)"
  shows "fnft_nsev_slow env D q_ptr T_ptr M XI_ptr kappa opts_ptr bufs = (E_INVALID_ARGUMENT, bufs)"
  using assms unfolding fnft_nsev_slow_def
  by (auto split: option.splits)

theorem fnft_nsev_slow_invalid_argument_witness:
  "fnft_nsev_slow example_env 1 (Some (\<lambda>k. 1)) (Some (0, 1)) 0 None 1 None example_buffers
     = (E_INVALID_ARGUMENT, example_buffers)"
  using fnft_nsev_slow_invalid_argument[of 1 "Some (\<lambda>k. 1)" "Some (0, 1)" example_buffers None 1
          example_env 0 None]
  by simp

section \<open>Discretizations of the scatter-matrix entry point and of the resampler\<close>

lemma shifted_copies_ok:
  assumes "\<forall>n e v dl. fst (misc_resample env n e v dl) = SUCCESS"
  shows "\<exists>qa qb. shifted_copies env D q eps_t delta = Inr (qa, qb)"
proof -
  obtain r1 a where 1: "misc_resample env D eps_t (entries q D) (- delta) = (r1, a)"
    by (cases "misc_resample env D eps_t (entries q D) (- delta)")
  obtain r2 b where 2: "misc_resample env D eps_t (entries q D) delta = (r2, b)"
    by (cases "misc_resample env D eps_t (entries q D) delta")
  have "r1 = SUCCESS" "r2 = SUCCESS"
    using assms 1 2 by (metis fst_conv)+
  then show ?thesis using 1 2 by (simp add: shifted_copies_def)
qed

lemma malloc_five_ok:
  assumes "\<forall>site. malloc env site \<noteq> None"
  shows "\<exists>r0. malloc_five env = Some r0"
proof -
  have m: "\<And>site. \<exists>a. malloc env site = Some a" using assms by auto
  obtain a b c d e where "malloc env ''q_1'' = Some a" "malloc env ''q_3'' = Some b"
    "malloc env ''r_1'' = Some c" "malloc env ''r_2'' = Some d" "malloc env ''r_3'' = Some e"
    using m by metis
  then show ?thesis by (simp add: malloc_five_def)
qed

lemma resample_switch_accepts:
  assumes "d \<in> {nse_discretization_CF4_2, nse_discretization_CF4_3, nse_discretization_CF5_3,
                 nse_discretization_CF6_4, nse_discretization_ES4, nse_discretization_TES4}"
    and mem: "\<forall>site. malloc env site \<noteq> None"
    and res: "\<forall>n e v dl. fst (misc_resample env n e v dl) = SUCCESS"
  shows "(\<exists>qr. resample_switch env d D q eps_t kappa nskip D_effective qe0 re0 = Inr qr)
       \<or> ((d = nse_discretization_ES4 \<or> d = nse_discretization_TES4) \<and> D_effective < 9
           \<and> resample_switch env d D q eps_t kappa nskip D_effective qe0 re0 = Inl FAULT)"
proof -
  obtain r0 where five: "malloc_five env = Some r0" using malloc_five_ok[OF mem] by blast
  have m: "\<And>site. \<exists>a. malloc env site = Some a" using mem by auto
  note sc = shifted_copies_ok[OF res]
  consider "d = nse_discretization_CF4_2" | "d = nse_discretization_CF4_3"
    | "d = nse_discretization_CF5_3" | "d = nse_discretization_CF6_4"
    | "d = nse_discretization_ES4" | "d = nse_discretization_TES4"
    using assms(1) by auto
  then show ?thesis
  proof cases
    case 1
    obtain qa qb where "shifted_copies env D q eps_t (eps_t * (sqrt 3 / 6) * real nskip) = Inr (qa, qb)"
      using sc by blast
    moreover obtain a b where "malloc env ''q_1'' = Some a" "malloc env ''q_2'' = Some b"
      using m by blast
    ultimately show ?thesis using 1 by (simp add: resample_switch_def case_CF4_2_def)
  next
    case 2
    obtain qa qb where "shifted_copies env D q eps_t (eps_t * sqrt (3 / 20) * real nskip) = Inr (qa, qb)"
      using sc by blast
    moreover obtain a b where "malloc env ''q_1'' = Some a" "malloc env ''q_3'' = Some b"
      using m by blast
    ultimately show ?thesis using 2 by (simp add: resample_switch_def case_CF4_3_def)
  next
    case 3
    obtain qa qb where "shifted_copies env D q eps_t (eps_t * sqrt 15 / 10 * real nskip) = Inr (qa, qb)"
      using sc by blast
    then show ?thesis using 3 five
      by (simp add: resample_switch_def case_CF5_3_def split: prod.split)
  next
    case 4
    obtain qa qb where "shifted_copies env D q eps_t (eps_t * real nskip * sqrt 15 / 10) = Inr (qa, qb)"
      using sc by blast
    then show ?thesis using 4 five
      by (simp add: resample_switch_def case_CF6_4_def split: prod.split)
  next
    case 5
    then show ?thesis by (simp add: resample_switch_def case_ES4_def)
  next
    case 6
    then show ?thesis by (simp add: resample_switch_def case_ES4_def)
  qed
qed

text \<open>
  Claim C8. \<^verbatim>\<open>nse_scatter_matrix\<close> returns \<open>E_INVALID_ARGUMENT\<close> for every discretization
  other than BO, whatever its other arguments, and leaves the result array alone. The
  resampler takes CF4_2, CF4_3, CF5_3, CF6_4, ES4 and TES4: on well-formed arguments, with
  allocation and band-limited resampling succeeding, it returns an effective signal for
  each of them (for ES4 and TES4 unless the effective signal has fewer than nine entries,
  where the edge formulas leave the allocated block).
\<close>

theorem scatter_matrix_only_BO:
  "(d \<noteq> nse_discretization_BO \<longrightarrow>
      nse_scatter_matrix env D q_ptr eps_t kappa K lambda_ptr result_ptr d
        = (E_INVALID_ARGUMENT, result_ptr))
   \<and> (d \<in> {nse_discretization_CF4_2, nse_discretization_CF4_3, nse_discretization_CF5_3,
             nse_discretization_CF6_4, nse_discretization_ES4, nse_discretization_TES4}
        \<and> 2 \<le> D' \<and> 0 < eps_t' \<and> \<bar>kappa'\<bar> = 1 \<and> nse_discretization_D_scale env d \<noteq> 0
        \<and> (\<forall>site. malloc env site \<noteq> None)
        \<and> (\<forall>n e v dl. fst (misc_resample env n e v dl) = SUCCESS) \<longrightarrow>
      (\<exists>sig. signal_effective_from_signal env D' (Some q') eps_t' kappa' Dsub_wanted d = Inr sig)
      \<or> ((d = nse_discretization_ES4 \<or> d = nse_discretization_TES4)
          \<and> signal_effective_from_signal env D' (Some q') eps_t' kappa' Dsub_wanted d = Inl FAULT))"
proof (intro conjI impI)
  assume "d \<noteq> nse_discretization_BO"
  then show "nse_scatter_matrix env D q_ptr eps_t kappa K lambda_ptr result_ptr d
        = (E_INVALID_ARGUMENT, result_ptr)"
    unfolding nse_scatter_matrix_def
    by (cases d) (simp_all split: option.splits)
next
  assume a: "d \<in> {nse_discretization_CF4_2, nse_discretization_CF4_3, nse_discretization_CF5_3,
             nse_discretization_CF6_4, nse_discretization_ES4, nse_discretization_TES4}
        \<and> 2 \<le> D' \<and> 0 < eps_t' \<and> \<bar>kappa'\<bar> = 1 \<and> nse_discretization_D_scale env d \<noteq> 0
        \<and> (\<forall>site. malloc env site \<noteq> None)
        \<and> (\<forall>n e v dl. fst (misc_resample env n e v dl) = SUCCESS)"
  then obtain qe0 re0 where m: "malloc env ''q_effective'' = Some qe0"
      "malloc env ''r_effective'' = Some re0"
    by (meson option.exhaust)
  define nskip where "nskip = nat (ROUND (real D' /
      real (if D' < (if Dsub_wanted < 2 then 2 else Dsub_wanted) then D'
            else if Dsub_wanted < 2 then 2 else Dsub_wanted)))"
  define D_effective where
    "D_effective = nat (ROUND (real D' / real nskip)) * nse_discretization_D_scale env d"
  from a have sw: "(\<exists>qr. resample_switch env d D' q' eps_t' kappa' nskip D_effective qe0 re0 = Inr qr)
       \<or> ((d = nse_discretization_ES4 \<or> d = nse_discretization_TES4) \<and> D_effective < 9
           \<and> resample_switch env d D' q' eps_t' kappa' nskip D_effective qe0 re0 = Inl FAULT)"
    by (intro resample_switch_accepts) auto
  show "(\<exists>sig. signal_effective_from_signal env D' (Some q') eps_t' kappa' Dsub_wanted d = Inr sig)
      \<or> ((d = nse_discretization_ES4 \<or> d = nse_discretization_TES4)
          \<and> signal_effective_from_signal env D' (Some q') eps_t' kappa' Dsub_wanted d = Inl FAULT)"
    using a m sw
    unfolding signal_effective_from_signal_def Let_def nskip_def[symmetric] D_effective_def[symmetric]
    by (auto split: prod.splits)
qed

theorem scatter_matrix_only_BO_witness:
  "nse_scatter_matrix example_env 2 (Some (\<lambda>k. 1)) 1 1 1 (Some (\<lambda>k. 0)) (Some (\<lambda>k. 0))
     nse_discretization_CF4_2 = (E_INVALID_ARGUMENT, Some (\<lambda>k. 0))
   \<and> (\<exists>sig. signal_effective_from_signal example_env 2 (Some (\<lambda>k. 1)) 1 1 2
               nse_discretization_CF4_2 = Inr sig)"
  using scatter_matrix_only_BO[where d = nse_discretization_CF4_2 and env = example_env
      and D = 2 and q_ptr = "Some (\<lambda>k. 1)" and eps_t = 1 and kappa = 1 and K = 1
      and lambda_ptr = "Some (\<lambda>k. 0)" and result_ptr = "Some (\<lambda>k. 0)"
      and D' = 2 and eps_t' = 1 and kappa' = 1 and q' = "\<lambda>k. 1" and Dsub_wanted = 2]
  by (simp add: example_env_def)

section \<open>Richardson extrapolation of the bound states\<close>

lemma nearest_sub_spec:
  "case nearest_sub eps_t K_sub bound_states_sub lam of
     (thres, loc) \<Rightarrow>
       (loc = K_sub \<and> (\<forall>j<K_sub. \<not> rel_dist_below lam (bound_states_sub j) eps_t))
       \<or> (loc < K_sub \<and> rel_dist_below lam (bound_states_sub loc) eps_t
           \<and> (\<forall>j<K_sub. cmod (lam - bound_states_sub loc) / cmod lam
                            \<le> cmod (lam - bound_states_sub j) / cmod lam))"
proof -
  define d where "d = (\<lambda>j. cmod (lam - bound_states_sub j) / cmod lam)"
  let ?near = "\<lambda>j. rel_dist_below lam (bound_states_sub j) eps_t"
  let ?body = "\<lambda>j (bs_err_thres, loc).
          if rel_dist_below lam (bound_states_sub j) bs_err_thres
          then (cmod (lam - bound_states_sub j) / cmod lam, j)
          else (bs_err_thres, loc)"
  let ?P = "\<lambda>j (s :: real \<times> nat). case s of (thres, loc) \<Rightarrow>
      j \<le> K_sub \<and>
      ((loc = K_sub \<and> thres = eps_t \<and> (\<forall>j'<j. \<not> ?near j'))
       \<or> (loc < j \<and> cmod lam \<noteq> 0 \<and> thres = d loc \<and> thres < eps_t \<and> (\<forall>j'<j. d loc \<le> d j')))"
  have "?P K_sub (for_loop 0 K_sub 1 ?body (eps_t, K_sub))"
  proof (rule for_loop_rule[where P = "?P"])
    show "?P 0 (eps_t, K_sub)" by simp
    show "0 \<le> K_sub" by simp
    show "?P (Suc j) (?body j t)" if "0 \<le> j" and jK: "j < K_sub" and inv: "?P j t" for j t
    proof -
      obtain thres loc where t: "t = (thres, loc)" by (cases t)
      from inv t consider
        (none) "loc = K_sub" "thres = eps_t" "\<forall>j'<j. \<not> ?near j'"
        | (some) "loc < j" "cmod lam \<noteq> 0" "thres = d loc" "thres < eps_t" "\<forall>j'<j. d loc \<le> d j'"
        by auto
      then show ?thesis
      proof cases
        case none
        show ?thesis
        proof (cases "?near j")
          case True
          then have nz: "cmod lam \<noteq> 0" and lt: "d j < eps_t"
            by (simp_all add: rel_dist_below_def d_def)
          have "\<forall>j'<Suc j. d j \<le> d j'"
          proof (intro allI impI)
            fix j' assume "j' < Suc j"
            then consider "j' = j" | "j' < j" by (auto simp: less_Suc_eq)
            then show "d j \<le> d j'"
            proof cases
              case 1 then show ?thesis by simp
            next
              case 2
              then have "\<not> ?near j'" using none(3) by simp
              then have "eps_t \<le> d j'" using nz by (simp add: rel_dist_below_def d_def)
              then show ?thesis using lt by simp
            qed
          qed
          then show ?thesis using True none t jK nz lt by (simp add: d_def)
        next
          case False
          then show ?thesis using none t jK by (auto simp: less_Suc_eq)
        qed
      next
        case some
        show ?thesis
        proof (cases "d j < thres")
          case True
          then have r: "rel_dist_below lam (bound_states_sub j) thres"
            using some(2) by (simp add: rel_dist_below_def d_def)
          have "\<forall>j'<Suc j. d j \<le> d j'"
            using True some(3,5) by (auto simp: less_Suc_eq intro: order_trans less_imp_le)
          then show ?thesis using r True some t jK by (simp add: d_def)
        next
          case False
          then have r: "\<not> rel_dist_below lam (bound_states_sub j) thres"
            by (simp add: rel_dist_below_def d_def)
          have "\<forall>j'<Suc j. d loc \<le> d j'"
            using False some(3,5) by (auto simp: less_Suc_eq)
          then show ?thesis using r some t jK by (simp add: less_Suc_eq)
        qed
      qed
    qed
  qed
  then show ?thesis
    unfolding nearest_sub_def
    by (auto simp: rel_dist_below_def d_def split: prod.splits)
qed

lemma richardson_bound_state_step:
  assumes "richardson_bound_state eps_t scl_num scl_den K K_sub ds_type_opt bound_states_sub j
             (b, r, s) = (SUCCESS, b', r', s')"
  shows "b' = (if snd (nearest_sub eps_t K_sub bound_states_sub (b j)) < K_sub
               then b(j := (complex_of_real scl_num * b j
                              - bound_states_sub (snd (nearest_sub eps_t K_sub bound_states_sub (b j))))
                            / complex_of_real scl_den)
               else b)"
    and "\<And>k. k \<noteq> j \<or> \<not> snd (nearest_sub eps_t K_sub bound_states_sub (b j)) < K_sub \<Longrightarrow>
           map_option (\<lambda>res. res (K + k)) r' = map_option (\<lambda>res. res (K + k)) r"
  using assms unfolding richardson_bound_state_def Let_def
  by (auto split: if_splits option.splits)

text \<open>
  The loop over the full-run eigenvalues, run to its end. If no sub-run eigenvalue has
  relative distance \<open>|bs i - sub j| / |bs i|\<close> strictly below \<open>eps_t\<close>, the eigenvalue and
  slot \<open>K + i\<close> of the reserve array are left as they were; if some has, the eigenvalue
  becomes \<open>(s bs i - sub loc) / (s - 1)\<close> for a sub-run eigenvalue \<open>loc\<close> within the threshold
  whose relative distance is least among all sub-run eigenvalues.
\<close>

lemma richardson_bound_state_loop:
  assumes run: "richardson_bound_states eps_t scl_num scl_den K K_sub ds_type_opt bound_states_sub
                  (bs, reserve_ptr, nc_sub) = (SUCCESS, bs', reserve_ptr', nc_sub')"
    and i: "i < K"
  shows "((\<forall>j<K_sub. \<not> rel_dist_below (bs i) (bound_states_sub j) eps_t) \<longrightarrow>
            bs' i = bs i
            \<and> map_option (\<lambda>res. res (K + i)) reserve_ptr'
                = map_option (\<lambda>res. res (K + i)) reserve_ptr)
       \<and> ((\<exists>j<K_sub. rel_dist_below (bs i) (bound_states_sub j) eps_t) \<longrightarrow>
            (\<exists>loc<K_sub.
               rel_dist_below (bs i) (bound_states_sub loc) eps_t
               \<and> (\<forall>j<K_sub. cmod (bs i - bound_states_sub loc) / cmod (bs i)
                                \<le> cmod (bs i - bound_states_sub j) / cmod (bs i))
               \<and> bs' i = (complex_of_real scl_num * bs i - bound_states_sub loc)
                           / complex_of_real scl_den))"
proof -
  define loc where "loc = (\<lambda>k. snd (nearest_sub eps_t K_sub bound_states_sub (bs k)))"
  define F where "F = (\<lambda>k. if loc k < K_sub
                           then (complex_of_real scl_num * bs k - bound_states_sub (loc k))
                                  / complex_of_real scl_den
                           else bs k)"
  let ?body = "richardson_bound_state eps_t scl_num scl_den K K_sub ds_type_opt bound_states_sub"
  let ?P = "\<lambda>j (st :: carray \<times> carray option \<times> carray). case st of (b, r, s) \<Rightarrow>
      (\<forall>k. b k = (if k < j then F k else bs k))
      \<and> (\<forall>k. j \<le> k \<or> \<not> loc k < K_sub \<longrightarrow>
             map_option (\<lambda>res. res (K + k)) r = map_option (\<lambda>res. res (K + k)) reserve_ptr)"
  have loop: "for_loop_rc 0 K ?body (bs, reserve_ptr, nc_sub) = (SUCCESS, bs', reserve_ptr', nc_sub')"
    using run by (simp add: richardson_bound_states_def)
  have "?P K (bs', reserve_ptr', nc_sub')"
  proof (rule for_loop_rc_rule[where P = "?P", OF loop])
    show "?P 0 (bs, reserve_ptr, nc_sub)" by simp
    show "0 \<le> K" by simp
    show "?P (Suc j) u'"
      if "0 \<le> j" and jK: "j < K" and inv: "?P j u" and step: "?body j u = (SUCCESS, u')"
      for j u u'
    proof -
      obtain b r s where u: "u = (b, r, s)" by (cases u)
      obtain b' r' s' where u': "u' = (b', r', s')" by (cases u')
      have bj: "b j = bs j" using inv u by simp
      note st = richardson_bound_state_step[OF step[unfolded u u']]
      have b': "b' = (if loc j < K_sub then b(j := F j) else b)"
        using st(1) bj by (simp add: loc_def F_def)
      have 1: "b' k = (if k < Suc j then F k else bs k)" for k
        using b' inv u by (auto simp: less_Suc_eq F_def)
      have 2: "map_option (\<lambda>res. res (K + k)) r' = map_option (\<lambda>res. res (K + k)) reserve_ptr"
        if "Suc j \<le> k \<or> \<not> loc k < K_sub" for k
      proof -
        have "k \<noteq> j \<or> \<not> snd (nearest_sub eps_t K_sub bound_states_sub (b j)) < K_sub"
          using that bj by (auto simp: loc_def)
        then have "map_option (\<lambda>res. res (K + k)) r' = map_option (\<lambda>res. res (K + k)) r"
          by (rule st(2))
        moreover have "map_option (\<lambda>res. res (K + k)) r
                         = map_option (\<lambda>res. res (K + k)) reserve_ptr"
          using inv u that by auto
        ultimately show ?thesis by simp
      qed
      show ?thesis using 1 2 u' by simp
    qed
  qed
  then have fin: "bs' i = F i"
    and res: "\<not> loc i < K_sub \<Longrightarrow>
                map_option (\<lambda>res. res (K + i)) reserve_ptr'
                  = map_option (\<lambda>res. res (K + i)) reserve_ptr"
    using i by auto
  obtain thres where ns: "nearest_sub eps_t K_sub bound_states_sub (bs i) = (thres, loc i)"
    by (metis loc_def prod.collapse)
  from nearest_sub_spec[where eps_t = eps_t and K_sub = K_sub
         and bound_states_sub = bound_states_sub and lam = "bs i"] ns
  have spec: "(loc i = K_sub \<and> (\<forall>j<K_sub. \<not> rel_dist_below (bs i) (bound_states_sub j) eps_t))
       \<or> (loc i < K_sub \<and> rel_dist_below (bs i) (bound_states_sub (loc i)) eps_t
           \<and> (\<forall>j<K_sub. cmod (bs i - bound_states_sub (loc i)) / cmod (bs i)
                            \<le> cmod (bs i - bound_states_sub j) / cmod (bs i)))"
    by simp
  show ?thesis
  proof (intro conjI impI)
    assume none: "\<forall>j<K_sub. \<not> rel_dist_below (bs i) (bound_states_sub j) eps_t"
    then have "\<not> loc i < K_sub" using spec by auto
    then show "bs' i = bs i" using fin by (simp add: F_def)
    from \<open>\<not> loc i < K_sub\<close> show "map_option (\<lambda>res. res (K + i)) reserve_ptr'
                = map_option (\<lambda>res. res (K + i)) reserve_ptr" by (rule res)
  next
    assume "\<exists>j<K_sub. rel_dist_below (bs i) (bound_states_sub j) eps_t"
    then have l: "loc i < K_sub" "rel_dist_below (bs i) (bound_states_sub (loc i)) eps_t"
      "\<forall>j<K_sub. cmod (bs i - bound_states_sub (loc i)) / cmod (bs i)
                            \<le> cmod (bs i - bound_states_sub j) / cmod (bs i)"
      using spec by auto
    moreover have "bs' i = (complex_of_real scl_num * bs i - bound_states_sub (loc i))
                           / complex_of_real scl_den"
      using fin l(1) by (simp add: F_def)
    ultimately show "\<exists>loc<K_sub.
               rel_dist_below (bs i) (bound_states_sub loc) eps_t
               \<and> (\<forall>j<K_sub. cmod (bs i - bound_states_sub loc) / cmod (bs i)
                                \<le> cmod (bs i - bound_states_sub j) / cmod (bs i))
               \<and> bs' i = (complex_of_real scl_num * bs i - bound_states_sub loc)
                           / complex_of_real scl_den"
      by blast
  qed
qed

text \<open>
  The sub-run that the Richardson branch makes for five samples \<open>1\<close> on \<open>[0, 1]\<close>: two
  samples at stride 3 on \<open>[0, 3/4]\<close>, started from a copy of the full run's eigenvalues.
\<close>

lemma residues_sub_signal:
  "signal_effective_from_signal (residues_env fresh) 5 (Some (\<lambda>k. 1)) (1 / 4) 1 (5 div 2)
     nse_discretization_BO
   = Inr \<lparr>Dsub = 2, q_effective = (\<lambda>k. if k < 2 then 1 else 0),
          r_effective = (\<lambda>k. if k < 2 then - 1 else 0), first_index = 0, last_index = 3\<rparr>"
  by (simp add: run_defs Let_def residues_env_def fun_eq_iff)

lemma residues_sub_buffers:
  "richardson_sub_buffers (residues_env fresh) 0 1
     (default_opts\<lparr>discspec_type := nsev_dstype_BOTH, richardson_extrapolation_flag := 1\<rparr>)
     \<lparr>out_contspec = None, out_K = Some 1, out_bound_states = Some bs,
      out_normconsts_or_residues = Some nc\<rparr>
   = Inr (0, \<lparr>out_contspec = None, out_K = Some 1,
              out_bound_states = Some (\<lambda>k. if k < 1 then bs k else 0),
              out_normconsts_or_residues = Some (\<lambda>k. 0)\<rparr>)"
  by (simp add: richardson_sub_buffers_def default_opts_def residues_env_def example_env_def
        for_loop.simps fun_eq_iff)


section \<open>Runs without a discrete spectrum\<close>

text \<open>The resampler reports an error only with an error code.\<close>

lemma shifted_copies_not_SUCCESS: "shifted_copies env D q eps_t delta \<noteq> Inl SUCCESS"
  unfolding shifted_copies_def E_SUBROUTINE_def by (simp split: prod.split)

lemma resample_switch_not_SUCCESS:
  "resample_switch env d D q eps_t kappa nskip D_effective qe0 re0 \<noteq> Inl SUCCESS"
proof (cases d)
  case nse_discretization_CF4_2
  then show ?thesis using shifted_copies_not_SUCCESS
    by (auto simp: resample_switch_def case_CF4_2_def split: option.splits sum.splits prod.splits)
next
  case nse_discretization_CF4_3
  then show ?thesis using shifted_copies_not_SUCCESS
    by (auto simp: resample_switch_def case_CF4_3_def split: option.splits sum.splits prod.splits)
next
  case nse_discretization_CF5_3
  then show ?thesis using shifted_copies_not_SUCCESS
    by (auto simp: resample_switch_def case_CF5_3_def split: option.splits sum.splits prod.splits)
next
  case nse_discretization_CF6_4
  then show ?thesis using shifted_copies_not_SUCCESS
    by (auto simp: resample_switch_def case_CF6_4_def split: option.splits sum.splits prod.splits)
qed (simp_all add: resample_switch_def case_ES4_def)

lemma signal_effective_not_SUCCESS:
  "signal_effective_from_signal env D q_ptr eps_t kappa Dsub_wanted d \<noteq> Inl SUCCESS"
  using resample_switch_not_SUCCESS
  unfolding signal_effective_from_signal_def Let_def
  by (auto split: option.splits sum.splits prod.splits)

text \<open>What a pipeline run and the Richardson branch leave alone when no discrete spectrum
  is computed.\<close>

lemma base_frame:
  assumes "kappa \<noteq> 1 \<or> out_bound_states bufs = None"
    and "fnft_nsev_slow_base env D q_ptr r T_ptr M XI_ptr kappa opts_ptr bufs = (rc, bufs')"
  shows "out_bound_states bufs' = out_bound_states bufs
       \<and> out_normconsts_or_residues bufs' = out_normconsts_or_residues bufs
       \<and> (out_K bufs' = out_K bufs \<or> out_K bufs' = Some 0)
       \<and> (rc = SUCCESS \<longrightarrow> out_K bufs \<noteq> None \<longrightarrow> out_K bufs' = Some 0)"
  using assms unfolding fnft_nsev_slow_base_def Let_def
  by (auto split: option.splits if_splits prod.splits)

lemma richardson_frame:
  assumes "kappa \<noteq> 1 \<or> out_bound_states bufs = None \<or> out_K bufs = Some 0"
    and "richardson env D q T eps_t D_scale M XI_ptr kappa opts ds_type_opt reserve_fresh bufs
           = (rc, bufs')"
  shows "out_K bufs' = out_K bufs
       \<and> out_bound_states bufs' = out_bound_states bufs
       \<and> out_normconsts_or_residues bufs' = out_normconsts_or_residues bufs"
  using assms unfolding richardson_def Let_def
  by (auto split: sum.splits option.splits if_splits prod.splits)

text \<open>A defocusing run with Richardson extrapolation and a two-point continuous
  spectrum.\<close>

lemma defocusing_richardson_run:
  "fst (fnft_nsev_slow example_env 4 (Some (\<lambda>k. 1)) (Some (0, 1)) 2 (Some (- 1, 1)) (- 1)
          (Some (default_opts\<lparr>richardson_extrapolation_flag := 1\<rparr>))
          (example_buffers\<lparr>out_contspec := Some (\<lambda>k. 0)\<rparr>))
     = SUCCESS"
  by (simp add: run_defs richardson_defs Let_def)

text \<open>
  Claim C10. A successful call of \<^verbatim>\<open>fnft_nsev_slow\<close> with \<open>kappa = -1\<close> or with
  \<^verbatim>\<open>bound_states\<close> null, and \<^verbatim>\<open>K_ptr\<close> not null, stores 0 behind \<^verbatim>\<open>K_ptr\<close> and leaves
  the arrays \<^verbatim>\<open>bound_states\<close> and \<^verbatim>\<open>normconsts_or_residues\<close> as it found them.
\<close>

theorem fnft_nsev_slow_no_discrete_spectrum:
  assumes "fnft_nsev_slow env D q_ptr T_ptr M XI_ptr kappa opts_ptr bufs = (SUCCESS, bufs')"
    and "kappa = - 1 \<or> out_bound_states bufs = None"
    and "out_K bufs \<noteq> None"
  shows "out_K bufs' = Some 0
       \<and> out_bound_states bufs' = out_bound_states bufs
       \<and> out_normconsts_or_residues bufs' = out_normconsts_or_residues bufs"
proof -
  obtain q T where qT: "q_ptr = Some q" "T_ptr = Some T"
    using assms(1) unfolding fnft_nsev_slow_def by (auto split: option.splits if_splits)
  define opts0 where "opts0 = (case opts_ptr of None \<Rightarrow> default_opts | Some opts \<Rightarrow> opts)"
  have run: "fnft_nsev_slow_run env D q T M XI_ptr kappa opts0 bufs = (SUCCESS, bufs')"
    using assms(1) qT unfolding fnft_nsev_slow_def opts0_def by (auto split: if_splits)
  have k: "kappa \<noteq> 1 \<or> out_bound_states bufs = None" using assms(2) by auto
  have "\<exists>D' q' r' opts bufs1.
          fnft_nsev_slow_base env D' q' r' (Some T) M XI_ptr kappa (Some opts) bufs
            = (SUCCESS, bufs1)
          \<and> (bufs' = bufs1 \<or>
              (\<exists>eps_t D_scale ds reserve_fresh.
                 richardson env D q T eps_t D_scale M XI_ptr kappa opts ds reserve_fresh bufs1
                   = (SUCCESS, bufs')))"
    using run signal_effective_not_SUCCESS
    unfolding fnft_nsev_slow_run_def Let_def E_SUBROUTINE_def
    by (fastforce split: sum.splits option.splits if_splits prod.splits)
  then obtain D' q' r' opts bufs1 where
    base: "fnft_nsev_slow_base env D' q' r' (Some T) M XI_ptr kappa (Some opts) bufs
             = (SUCCESS, bufs1)"
    and rest: "bufs' = bufs1 \<or>
              (\<exists>eps_t D_scale ds reserve_fresh.
                 richardson env D q T eps_t D_scale M XI_ptr kappa opts ds reserve_fresh bufs1
                   = (SUCCESS, bufs'))"
    by blast
  from base_frame[OF k base] assms(3)
  have b1: "out_bound_states bufs1 = out_bound_states bufs"
    "out_normconsts_or_residues bufs1 = out_normconsts_or_residues bufs"
    "out_K bufs1 = Some 0"
    by auto
  from rest show ?thesis
  proof
    assume "bufs' = bufs1"
    then show ?thesis using b1 by simp
  next
    assume "\<exists>eps_t D_scale ds reserve_fresh.
                 richardson env D q T eps_t D_scale M XI_ptr kappa opts ds reserve_fresh bufs1
                   = (SUCCESS, bufs')"
    then obtain eps_t D_scale ds reserve_fresh where
      r: "richardson env D q T eps_t D_scale M XI_ptr kappa opts ds reserve_fresh bufs1
            = (SUCCESS, bufs')" by blast
    have "kappa \<noteq> 1 \<or> out_bound_states bufs1 = None \<or> out_K bufs1 = Some 0"
      using b1 by simp
    from richardson_frame[OF this r] show ?thesis using b1 by simp
  qed
qed

theorem fnft_nsev_slow_no_discrete_spectrum_witness:
  "fst (fnft_nsev_slow example_env 4 (Some (\<lambda>k. 1)) (Some (0, 1)) 2 (Some (- 1, 1)) (- 1)
          (Some (default_opts\<lparr>richardson_extrapolation_flag := 1\<rparr>))
          (example_buffers\<lparr>out_contspec := Some (\<lambda>k. 0)\<rparr>)) = SUCCESS
   \<and> out_K (snd (fnft_nsev_slow example_env 4 (Some (\<lambda>k. 1)) (Some (0, 1)) 2 (Some (- 1, 1))
                   (- 1) (Some (default_opts\<lparr>richardson_extrapolation_flag := 1\<rparr>))
                   (example_buffers\<lparr>out_contspec := Some (\<lambda>k. 0)\<rparr>))) = Some 0
   \<and> out_bound_states (snd (fnft_nsev_slow example_env 4 (Some (\<lambda>k. 1)) (Some (0, 1)) 2
                   (Some (- 1, 1)) (- 1) (Some (default_opts\<lparr>richardson_extrapolation_flag := 1\<rparr>))
                   (example_buffers\<lparr>out_contspec := Some (\<lambda>k. 0)\<rparr>)))
       = out_bound_states example_buffers
   \<and> out_normconsts_or_residues (snd (fnft_nsev_slow example_env 4 (Some (\<lambda>k. 1)) (Some (0, 1))
                   2 (Some (- 1, 1)) (- 1)
                   (Some (default_opts\<lparr>richardson_extrapolation_flag := 1\<rparr>))
                   (example_buffers\<lparr>out_contspec := Some (\<lambda>k. 0)\<rparr>)))
       = out_normconsts_or_residues example_buffers"
proof -
  let ?run = "fnft_nsev_slow example_env 4 (Some (\<lambda>k. 1)) (Some (0, 1)) 2 (Some (- 1, 1)) (- 1)
          (Some (default_opts\<lparr>richardson_extrapolation_flag := 1\<rparr>))
          (example_buffers\<lparr>out_contspec := Some (\<lambda>k. 0)\<rparr>)"
  have e: "?run = (SUCCESS, snd ?run)"
    using defocusing_richardson_run by (metis prod.collapse)
  have k: "out_K (example_buffers\<lparr>out_contspec := Some (\<lambda>k. 0)\<rparr>) \<noteq> None"
    by (simp add: example_buffers_def)
  from fnft_nsev_slow_no_discrete_spectrum[OF e _ k] defocusing_richardson_run
  show ?thesis by simp
qed

end
